theory Spec2Isabelle
  imports Main "HOL-Library.Multiset"
begin

section \<open>JavaScript primitives used by the RADIUS synchroniser\<close>

text \<open>
  Strings are lists of characters. The source only concatenates strings, compares them
  for equality, splits them at the one-character separator \<open>"_"\<close>, joins them and tests
  a prefix, so every operation below works code unit by code unit.

  Numbers read from a plan are database integers; a template literal \<open>`${n}`\<close> and
  \<open>String(n)\<close> render an integer in decimal, with a leading minus sign when negative.
\<close>

definition digit_char :: "nat \<Rightarrow> char" where
  "digit_char d = char_of (48 + d)"

function string_of_nat :: "nat \<Rightarrow> string" where
  "string_of_nat n =
     (if n < 10 then [digit_char n] else string_of_nat (n div 10) @ [digit_char (n mod 10)])"
  by pat_completeness auto
termination
  by (relation "measure (\<lambda>n. n)") auto

declare string_of_nat.simps [simp del]

definition String :: "int \<Rightarrow> string" where
  "String i = (if i < 0 then CHR ''-'' # string_of_nat (nat (- i)) else string_of_nat (nat i))"

text \<open>
  \<open>s.split(sep)\<close> for a one-character separator: the pieces between the occurrences of
  the separator, in order; the empty string gives one empty piece.
\<close>

fun js_split :: "char \<Rightarrow> string \<Rightarrow> string list" where
  "js_split sep [] = [[]]"
| "js_split sep (c # cs) =
     (if c = sep then [] # js_split sep cs
      else (case js_split sep cs of
              [] \<Rightarrow> [[c]]
            | p # ps \<Rightarrow> (c # p) # ps))"

text \<open>\<open>parts.join(sep)\<close>.\<close>

fun js_join :: "string \<Rightarrow> string list \<Rightarrow> string" where
  "js_join sep [] = []"
| "js_join sep [p] = p"
| "js_join sep (p # q # ps) = p @ sep @ js_join sep (q # ps)"

text \<open>\<open>parts.shift()\<close> drops the first element; on an empty array it does nothing.\<close>

fun shift :: "'a list \<Rightarrow> 'a list" where
  "shift [] = []"
| "shift (p # ps) = ps"

text \<open>
  Truthiness, as \<open>if (x)\<close> and \<open>x && y\<close>, \<open>x || y\<close> test it: a nullable number is truthy
  when it is present and not zero, a nullable string when it is present and not empty.
\<close>

fun truthy_num :: "int option \<Rightarrow> bool" where
  "truthy_num None = False"
| "truthy_num (Some n) = (n \<noteq> 0)"

fun truthy_str :: "string option \<Rightarrow> bool" where
  "truthy_str None = False"
| "truthy_str (Some s) = (s \<noteq> [])"

section \<open>radius-utils: namespace mapper and attribute encoder\<close>

text \<open>
  Modelled from the spec: the generated Prisma type \<open>Plan\<close> is not among the sources.
  The fields are the ones the code reads; the optional burst fields, the pool name and
  the simultaneous-device limit are nullable, the two enumerations are the strings
  they are at run time.
\<close>

record Plan =
  plan_id :: string
  downloadSpeed :: int
  uploadSpeed :: int
  speedUnit :: string
  burstDownloadSpeed :: "int option"
  burstUploadSpeed :: "int option"
  burstThreshold :: "int option"
  burstTime :: "int option"
  priority :: int
  poolName :: "string option"
  validityUnit :: string
  validityDays :: int
  simultaneousDevices :: "int option"

definition unit_of :: "Plan \<Rightarrow> string" where
  "unit_of plan = (if speedUnit plan = ''MBPS'' then ''M'' else ''k'')"

text \<open>The constants \<open>thresholdRx\<close> and \<open>thresholdTx\<close> of the source are the same expression.\<close>

definition thresholdRx :: "Plan \<Rightarrow> string" where
  "thresholdRx plan =
     (if truthy_num (burstThreshold plan) then String (the (burstThreshold plan)) @ ''k''
      else ''0'')"

text \<open>The condition \<open>plan.burstDownloadSpeed && plan.burstUploadSpeed && plan.burstTime\<close>.\<close>

definition burst_configured :: "Plan \<Rightarrow> bool" where
  "burst_configured plan \<longleftrightarrow>
     truthy_num (burstDownloadSpeed plan) \<and> truthy_num (burstUploadSpeed plan)
     \<and> truthy_num (burstTime plan)"

definition buildMikroTikRateLimit :: "Plan \<Rightarrow> string" where
  "buildMikroTikRateLimit plan =
     (let unit = unit_of plan;
          rx = String (downloadSpeed plan) @ unit;
          tx = String (uploadSpeed plan) @ unit
      in if burst_configured plan
         then
           (let burstRx = String (the (burstDownloadSpeed plan)) @ unit;
                burstTx = String (the (burstUploadSpeed plan)) @ unit;
                time = String (the (burstTime plan)) @ ''s/'' @ String (the (burstTime plan)) @ ''s''
            in rx @ ''/'' @ tx @ '' '' @ burstRx @ ''/'' @ burstTx @ '' ''
               @ thresholdRx plan @ ''/'' @ thresholdRx plan @ '' '' @ time @ '' ''
               @ String (priority plan))
         else rx @ ''/'' @ tx)"

definition buildRadiusUsername :: "string \<Rightarrow> string \<Rightarrow> string" where
  "buildRadiusUsername tenantSlug username = tenantSlug @ ''_'' @ username"

definition buildRadiusGroupname :: "string \<Rightarrow> string \<Rightarrow> string" where
  "buildRadiusGroupname tenantSlug planId = tenantSlug @ ''_'' @ planId"

definition extractSubscriberUsername :: "string \<Rightarrow> string" where
  "extractSubscriberUsername radiusUsername = js_join ''_'' (shift (js_split CHR ''_'' radiusUsername))"

record Attr =
  attr_attribute :: string
  attr_value :: string
  attr_priority :: int

definition planToRadiusAttributes :: "Plan \<Rightarrow> Attr list" where
  "planToRadiusAttributes plan =
     [\<lparr>attr_attribute = ''Mikrotik-Rate-Limit'', attr_value = buildMikroTikRateLimit plan,
       attr_priority = 1\<rparr>]
     @ (if truthy_str (poolName plan)
        then [\<lparr>attr_attribute = ''Framed-Pool'', attr_value = the (poolName plan),
               attr_priority = 2\<rparr>]
        else [])
     @ (if validityUnit plan = ''HOURS''
        then [\<lparr>attr_attribute = ''Session-Timeout'',
               attr_value = String (validityDays plan * 3600), attr_priority = 3\<rparr>]
        else [])"

section \<open>The relational store\<close>

text \<open>
  Modelled from the spec: the Prisma schema of the RADIUS tables is not among the
  sources. Each row type has the columns the code writes or filters on; the generated
  row id is left out. A table is the list of its rows in insertion order.
\<close>

record RadCheck =
  rc_username :: string
  rc_attribute :: string
  rc_op :: string
  rc_value :: string

record RadReply =
  rr_username :: string
  rr_attribute :: string
  rr_op :: string
  rr_value :: string

record RadUserGroup =
  ug_username :: string
  ug_groupname :: string
  ug_priority :: int

record RadGroupCheck =
  gc_groupname :: string
  gc_attribute :: string
  gc_op :: string
  gc_value :: string

record RadGroupReply =
  gr_groupname :: string
  gr_attribute :: string
  gr_op :: string
  gr_value :: string
  gr_priority :: int

text \<open>Times are milliseconds since the epoch; a null column is \<open>None\<close>.\<close>

record RadAcct =
  acct_username :: string
  nasipaddress :: string
  acctstarttime :: "int option"
  acctupdatetime :: "int option"
  acctstoptime :: "int option"
  acctterminatecause :: string

record Store =
  radCheck :: "RadCheck list"
  radReply :: "RadReply list"
  radUserGroup :: "RadUserGroup list"
  radGroupCheck :: "RadGroupCheck list"
  radGroupReply :: "RadGroupReply list"
  radAcct :: "RadAcct list"

text \<open>
  The Prisma calls: \<open>deleteMany({where})\<close> removes the matching rows, \<open>create({data})\<close>
  adds a row, \<open>findFirst({where})\<close> returns a matching row or null, and
  \<open>updateMany({where, data})\<close> rewrites the matching rows and returns their count.
\<close>

definition deleteMany :: "('r \<Rightarrow> bool) \<Rightarrow> 'r list \<Rightarrow> 'r list" where
  "deleteMany wh rows = filter (\<lambda>r. \<not> wh r) rows"

definition create :: "'r \<Rightarrow> 'r list \<Rightarrow> 'r list" where
  "create row rows = rows @ [row]"

definition findFirst :: "('r \<Rightarrow> bool) \<Rightarrow> 'r list \<Rightarrow> 'r option" where
  "findFirst wh rows = find wh rows"

definition updateMany :: "('r \<Rightarrow> bool) \<Rightarrow> ('r \<Rightarrow> 'r) \<Rightarrow> 'r list \<Rightarrow> nat \<times> 'r list" where
  "updateMany wh data rows =
     (length (filter wh rows), map (\<lambda>r. if wh r then data r else r) rows)"

text \<open>
  A thrown exception is a value. A transaction either commits the effect of its body
  or, when the store fails at any step, rolls back and throws: the caller keeps the
  state it had. Whether the store fails is an input of the model.
\<close>

datatype error = Error string

definition transaction :: "error option \<Rightarrow> (Store \<Rightarrow> Store) \<Rightarrow> Store \<Rightarrow> error + Store" where
  "transaction fault body s = (case fault of Some e \<Rightarrow> Inl e | None \<Rightarrow> Inr (body s))"

text \<open>Sequencing of awaited calls: the first exception ends the sequence.\<close>

fun and_then :: "error + 'a \<Rightarrow> ('a \<Rightarrow> error + 'b) \<Rightarrow> error + 'b" where
  "and_then (Inl e) f = Inl e"
| "and_then (Inr x) f = f x"

text \<open>The calls as the transaction client \<open>tx\<close> offers them, one table each.\<close>

definition radCheck_deleteMany :: "(RadCheck \<Rightarrow> bool) \<Rightarrow> Store \<Rightarrow> Store" where
  "radCheck_deleteMany wh s = s\<lparr>radCheck := deleteMany wh (radCheck s)\<rparr>"

definition radCheck_create :: "RadCheck \<Rightarrow> Store \<Rightarrow> Store" where
  "radCheck_create row s = s\<lparr>radCheck := create row (radCheck s)\<rparr>"

definition radUserGroup_deleteMany :: "(RadUserGroup \<Rightarrow> bool) \<Rightarrow> Store \<Rightarrow> Store" where
  "radUserGroup_deleteMany wh s = s\<lparr>radUserGroup := deleteMany wh (radUserGroup s)\<rparr>"

definition radUserGroup_create :: "RadUserGroup \<Rightarrow> Store \<Rightarrow> Store" where
  "radUserGroup_create row s = s\<lparr>radUserGroup := create row (radUserGroup s)\<rparr>"

definition radUserGroup_findFirst :: "(RadUserGroup \<Rightarrow> bool) \<Rightarrow> Store \<Rightarrow> RadUserGroup option" where
  "radUserGroup_findFirst wh s = findFirst wh (radUserGroup s)"

definition radGroupReply_deleteMany :: "(RadGroupReply \<Rightarrow> bool) \<Rightarrow> Store \<Rightarrow> Store" where
  "radGroupReply_deleteMany wh s = s\<lparr>radGroupReply := deleteMany wh (radGroupReply s)\<rparr>"

definition radGroupReply_create :: "RadGroupReply \<Rightarrow> Store \<Rightarrow> Store" where
  "radGroupReply_create row s = s\<lparr>radGroupReply := create row (radGroupReply s)\<rparr>"

definition radGroupCheck_deleteMany :: "(RadGroupCheck \<Rightarrow> bool) \<Rightarrow> Store \<Rightarrow> Store" where
  "radGroupCheck_deleteMany wh s = s\<lparr>radGroupCheck := deleteMany wh (radGroupCheck s)\<rparr>"

definition radGroupCheck_create :: "RadGroupCheck \<Rightarrow> Store \<Rightarrow> Store" where
  "radGroupCheck_create row s = s\<lparr>radGroupCheck := create row (radGroupCheck s)\<rparr>"

section \<open>radius.service: the synchroniser\<close>

text \<open>
  Modelled from the spec: the generated Prisma type \<open>Subscriber\<close> is not among the
  sources. A \<open>Date\<close> is read through its local calendar fields only: the month index
  (0 to 11 for a valid date), the day of the month and the full year.
\<close>

record Date =
  getFullYear :: int
  getMonth :: nat
  getDate :: nat

record Subscriber =
  sub_id :: string
  sub_username :: string
  planId :: "string option"
  expiryDate :: "Date option"
  macAddress :: "string option"
  staticIp :: "string option"

text \<open>
  \<open>s.toUpperCase()\<close> on the ASCII letters \<open>a\<close> to \<open>z\<close>, the letters of a MAC address in
  hexadecimal. Characters outside ASCII are left as they are here, where JavaScript
  maps them by the Unicode tables; no property below depends on how a character is
  mapped.
\<close>

definition to_upper_char :: "char \<Rightarrow> char" where
  "to_upper_char c =
     (let n = (of_char c :: nat) in if 97 \<le> n \<and> n \<le> 122 then char_of (n - 32) else c)"

definition toUpperCase :: "string \<Rightarrow> string" where
  "toUpperCase s = map to_upper_char s"

definition months :: "string list" where
  "months = [''Jan'', ''Feb'', ''Mar'', ''Apr'', ''May'', ''Jun'',
             ''Jul'', ''Aug'', ''Sep'', ''Oct'', ''Nov'', ''Dec'']"

text \<open>An index outside the array reads \<open>undefined\<close>, which the template prints as such.\<close>

definition formatRadiusExpiration :: "Date \<Rightarrow> string" where
  "formatRadiusExpiration date =
     (if getMonth date < length months then months ! getMonth date else ''undefined'')
     @ '' '' @ String (int (getDate date)) @ '' '' @ String (getFullYear date) @ '' 23:59:59''"

text \<open>The \<open>where\<close> clause \<open>{ username, attribute }\<close> on the check table.\<close>

definition check_where :: "string \<Rightarrow> string \<Rightarrow> RadCheck \<Rightarrow> bool" where
  "check_where username attribute r \<longleftrightarrow> rc_username r = username \<and> rc_attribute r = attribute"

definition syncSubscriberAuth_tx :: "string \<Rightarrow> Subscriber \<Rightarrow> string option \<Rightarrow> Store \<Rightarrow> Store" where
  "syncSubscriberAuth_tx tenantSlug subscriber cleartextPassword s =
     (let radiusUsername = buildRadiusUsername tenantSlug (sub_username subscriber);
          s1 = (if truthy_str cleartextPassword
                then radCheck_create
                       \<lparr>rc_username = radiusUsername, rc_attribute = ''Cleartext-Password'',
                        rc_op = '':='', rc_value = the cleartextPassword\<rparr>
                       (radCheck_deleteMany (check_where radiusUsername ''Cleartext-Password'') s)
                else s);
          s2 = radCheck_deleteMany (check_where radiusUsername ''Expiration'') s1;
          s3 = (case expiryDate subscriber of
                  Some d \<Rightarrow>
                    radCheck_create
                      \<lparr>rc_username = radiusUsername, rc_attribute = ''Expiration'',
                       rc_op = '':='', rc_value = formatRadiusExpiration d\<rparr> s2
                | None \<Rightarrow> s2);
          s4 = radCheck_deleteMany (check_where radiusUsername ''Calling-Station-Id'') s3;
          s5 = (if truthy_str (macAddress subscriber)
                then radCheck_create
                       \<lparr>rc_username = radiusUsername, rc_attribute = ''Calling-Station-Id'',
                        rc_op = '':='', rc_value = toUpperCase (the (macAddress subscriber))\<rparr> s4
                else s4)
      in s5)"

definition syncSubscriberAuth ::
    "error option \<Rightarrow> string \<Rightarrow> Subscriber \<Rightarrow> string option \<Rightarrow> Store \<Rightarrow> error + Store" where
  "syncSubscriberAuth fault tenantSlug subscriber cleartextPassword s =
     transaction fault (syncSubscriberAuth_tx tenantSlug subscriber cleartextPassword) s"

definition enableSubscriberRadius_tx :: "string \<Rightarrow> Subscriber \<Rightarrow> Store \<Rightarrow> Store" where
  "enableSubscriberRadius_tx tenantSlug subscriber s =
     (let radiusUsername = buildRadiusUsername tenantSlug (sub_username subscriber);
          s1 = radCheck_deleteMany (check_where radiusUsername ''Auth-Type'') s;
          s2 = radCheck_deleteMany (check_where radiusUsername ''Expiration'') s1;
          s3 = (case expiryDate subscriber of
                  Some d \<Rightarrow>
                    radCheck_create
                      \<lparr>rc_username = radiusUsername, rc_attribute = ''Expiration'',
                       rc_op = '':='', rc_value = formatRadiusExpiration d\<rparr> s2
                | None \<Rightarrow> s2);
          s4 = radCheck_deleteMany (check_where radiusUsername ''Calling-Station-Id'') s3;
          s5 = (if truthy_str (macAddress subscriber)
                then radCheck_create
                       \<lparr>rc_username = radiusUsername, rc_attribute = ''Calling-Station-Id'',
                        rc_op = '':='', rc_value = toUpperCase (the (macAddress subscriber))\<rparr> s4
                else s4);
          s6 = (if truthy_str (planId subscriber)
                then (let groupname = buildRadiusGroupname tenantSlug (the (planId subscriber));
                          existing = radUserGroup_findFirst (\<lambda>r. ug_username r = radiusUsername) s5
                      in if existing = None
                         then radUserGroup_create
                                \<lparr>ug_username = radiusUsername, ug_groupname = groupname,
                                 ug_priority = 1\<rparr> s5
                         else s5)
                else s5)
      in s6)"

definition enableSubscriberRadius ::
    "error option \<Rightarrow> string \<Rightarrow> Subscriber \<Rightarrow> Store \<Rightarrow> error + Store" where
  "enableSubscriberRadius fault tenantSlug subscriber s =
     transaction fault (enableSubscriberRadius_tx tenantSlug subscriber) s"

definition disableSubscriberRadius_tx :: "string \<Rightarrow> string \<Rightarrow> Store \<Rightarrow> Store" where
  "disableSubscriberRadius_tx tenantSlug username s =
     (let radiusUsername = buildRadiusUsername tenantSlug username;
          s1 = radCheck_deleteMany (check_where radiusUsername ''Auth-Type'') s;
          s2 = radCheck_create
                 \<lparr>rc_username = radiusUsername, rc_attribute = ''Auth-Type'',
                  rc_op = '':='', rc_value = ''Reject''\<rparr> s1;
          s3 = radUserGroup_deleteMany (\<lambda>r. ug_username r = radiusUsername) s2
      in s3)"

definition disableSubscriberRadius ::
    "error option \<Rightarrow> string \<Rightarrow> string \<Rightarrow> Store \<Rightarrow> error + Store" where
  "disableSubscriberRadius fault tenantSlug username s =
     transaction fault (disableSubscriberRadius_tx tenantSlug username) s"

text \<open>The loop \<open>for (const attr of attributes)\<close> of \<open>syncPlanBandwidth\<close>.\<close>

fun create_reply_attributes :: "string \<Rightarrow> Attr list \<Rightarrow> Store \<Rightarrow> Store" where
  "create_reply_attributes groupname [] s = s"
| "create_reply_attributes groupname (attr # attributes) s =
     create_reply_attributes groupname attributes
       (radGroupReply_create
          \<lparr>gr_groupname = groupname, gr_attribute = attr_attribute attr, gr_op = '':='',
           gr_value = attr_value attr, gr_priority = attr_priority attr\<rparr> s)"

definition syncPlanBandwidth_tx :: "string \<Rightarrow> Plan \<Rightarrow> Store \<Rightarrow> Store" where
  "syncPlanBandwidth_tx tenantSlug plan s =
     (let groupname = buildRadiusGroupname tenantSlug (plan_id plan);
          s1 = radGroupReply_deleteMany (\<lambda>r. gr_groupname r = groupname) s;
          s2 = radGroupCheck_deleteMany (\<lambda>r. gc_groupname r = groupname) s1;
          attributes = planToRadiusAttributes plan;
          s3 = create_reply_attributes groupname attributes s2;
          s4 = radGroupCheck_create
                 \<lparr>gc_groupname = groupname, gc_attribute = ''Simultaneous-Use'',
                  gc_op = '':='',
                  gc_value = String (if truthy_num (simultaneousDevices plan)
                                     then the (simultaneousDevices plan) else 1)\<rparr> s3
      in s4)"

definition syncPlanBandwidth :: "error option \<Rightarrow> string \<Rightarrow> Plan \<Rightarrow> Store \<Rightarrow> error + Store" where
  "syncPlanBandwidth fault tenantSlug plan s =
     transaction fault (syncPlanBandwidth_tx tenantSlug plan) s"

subsection \<open>Device control\<close>

text \<open>
  The CoA client (\<open>sendCoaDisconnect\<close>, \<open>sendCoaChangeRate\<close>) is not among the sources: it
  is a parameter. The awaited promise either resolves to a boolean or rejects with an
  error.
\<close>

record CoaDisconnect =
  cd_nasIp :: string
  cd_secret :: string
  cd_username :: string

record CoaChangeRate =
  cr_nasIp :: string
  cr_secret :: string
  cr_username :: string
  cr_rateLimit :: string

definition disconnectUser ::
    "(CoaDisconnect \<Rightarrow> error + bool) \<Rightarrow> string \<Rightarrow> string \<Rightarrow> string \<Rightarrow> error + bool" where
  "disconnectUser sendCoaDisconnect nasIp username secret =
     (case sendCoaDisconnect \<lparr>cd_nasIp = nasIp, cd_secret = secret, cd_username = username\<rparr> of
        Inr success \<Rightarrow> Inr success
      | Inl e \<Rightarrow> Inr False)"

definition changeUserBandwidth ::
    "(CoaChangeRate \<Rightarrow> error + bool) \<Rightarrow> string \<Rightarrow> string \<Rightarrow> string \<Rightarrow> string \<Rightarrow> error + bool" where
  "changeUserBandwidth sendCoaChangeRate nasIp username secret rateLimit =
     (case sendCoaChangeRate \<lparr>cr_nasIp = nasIp, cr_secret = secret, cr_username = username,
                              cr_rateLimit = rateLimit\<rparr> of
        Inr success \<Rightarrow> Inr success
      | Inl e \<Rightarrow> Inr False)"

subsection \<open>Stale-session sweep\<close>

text \<open>
  The Prisma filter \<open>{ startsWith: p }\<close> reaches PostgreSQL as \<open>LIKE\<close> with the pattern
  \<open>p\<close> followed by \<open>%\<close>, and \<open>p\<close> is not escaped: in the pattern \<open>%\<close> matches any run of
  characters, \<open>_\<close> any one character, and a backslash makes the next character
  literal. A pattern that ends in a lone backslash is an error of the database; the
  pattern of \<open>startsWith\<close> ends in \<open>%\<close>, and here such a pattern matches nothing.
  The filter \<open>{ lt: threshold }\<close> never matches a null column.
\<close>

fun like :: "string \<Rightarrow> string \<Rightarrow> bool" where
  "like [] [] = True"
| "like (c # cs) [] = False"
| "like [] (p # ps) = (p = CHR ''%'' \<and> like [] ps)"
| "like (c # cs) (p # ps) =
     (if p = CHR ''%'' then like (c # cs) ps \<or> like cs (p # ps)
      else if p = CHR ''_'' then like cs ps
      else if p = CHR 0x5C then (case ps of [] \<Rightarrow> False | q # qs \<Rightarrow> q = c \<and> like cs qs)
      else p = c \<and> like cs ps)"

definition startsWith :: "string \<Rightarrow> string \<Rightarrow> bool" where
  "startsWith p s = like s (p @ ''%'')"

fun lt :: "int option \<Rightarrow> int \<Rightarrow> bool" where
  "lt None threshold = False"
| "lt (Some t) threshold = (t < threshold)"

definition stale_where :: "string option \<Rightarrow> int \<Rightarrow> RadAcct \<Rightarrow> bool" where
  "stale_where tenantSlug threshold r \<longleftrightarrow>
     acctstoptime r = None
     \<and> (lt (acctupdatetime r) threshold
        \<or> (acctupdatetime r = None \<and> lt (acctstarttime r) threshold))
     \<and> (if truthy_str tenantSlug then startsWith (the tenantSlug @ ''_'') (acct_username r)
        else True)"

text \<open>
  The clock is read twice: \<open>Date.now()\<close> for the threshold (\<open>now\<close>) and \<open>new Date()\<close> for
  the stop time written (\<open>stop\<close>). The threshold argument defaults to 15 minutes.
\<close>

definition cleanupStaleSessions ::
    "error option \<Rightarrow> int \<Rightarrow> int \<Rightarrow> string option \<Rightarrow> int option \<Rightarrow> Store \<Rightarrow> error + nat \<times> Store" where
  "cleanupStaleSessions fault now stop tenantSlug staleThresholdMinutes s =
     (let minutes = (case staleThresholdMinutes of None \<Rightarrow> 15 | Some m \<Rightarrow> m);
          threshold = now - minutes * 60 * 1000
      in case fault of
           Some e \<Rightarrow> Inl e
         | None \<Rightarrow>
             (let result = updateMany (stale_where tenantSlug threshold)
                             (\<lambda>r. r\<lparr>acctstoptime := Some stop,
                                    acctterminatecause := ''Stale-Session''\<rparr>)
                             (radAcct s)
              in Inr (fst result, s\<lparr>radAcct := snd result\<rparr>)))"

subsection \<open>Auxiliary notions\<close>

text \<open>
  The check rows of a username that \<open>enableSubscriberRadius\<close> deletes, and the rows it
  writes back from the subscriber: the expiration row, the device-binding row and the
  group membership.
\<close>

definition managed :: "string \<Rightarrow> RadCheck \<Rightarrow> bool" where
  "managed u r \<longleftrightarrow>
     check_where u ''Auth-Type'' r \<or> check_where u ''Expiration'' r
     \<or> check_where u ''Calling-Station-Id'' r"

definition expiration_rows :: "string \<Rightarrow> Subscriber \<Rightarrow> RadCheck list" where
  "expiration_rows u subscriber =
     (case expiryDate subscriber of
        None \<Rightarrow> []
      | Some d \<Rightarrow> [\<lparr>rc_username = u, rc_attribute = ''Expiration'', rc_op = '':='',
                     rc_value = formatRadiusExpiration d\<rparr>])"

definition station_rows :: "string \<Rightarrow> Subscriber \<Rightarrow> RadCheck list" where
  "station_rows u subscriber =
     (if truthy_str (macAddress subscriber)
        then [\<lparr>rc_username = u, rc_attribute = ''Calling-Station-Id'', rc_op = '':='',
               rc_value = toUpperCase (the (macAddress subscriber))\<rparr>]
        else [])"

definition membership_rows :: "string \<Rightarrow> Subscriber \<Rightarrow> RadUserGroup list" where
  "membership_rows tenant subscriber =
     (if truthy_str (planId subscriber)
      then [\<lparr>ug_username = buildRadiusUsername tenant (sub_username subscriber),
             ug_groupname = buildRadiusGroupname tenant (the (planId subscriber)),
             ug_priority = 1\<rparr>]
      else [])"

subsection \<open>Example values\<close>

definition plan_no_burst :: Plan where
  "plan_no_burst =
     \<lparr>plan_id = ''p1'', downloadSpeed = 50, uploadSpeed = 30, speedUnit = ''MBPS'',
      burstDownloadSpeed = None, burstUploadSpeed = None, burstThreshold = None,
      burstTime = None, priority = 8, poolName = None, validityUnit = ''DAYS'',
      validityDays = 30, simultaneousDevices = None\<rparr>"

definition plan_burst :: Plan where
  "plan_burst =
     plan_no_burst\<lparr>burstDownloadSpeed := Some 100, burstUploadSpeed := Some 50,
                    burstThreshold := Some 100, burstTime := Some 10, priority := 1\<rparr>"

definition plan_burst_no_threshold :: Plan where
  "plan_burst_no_threshold = plan_burst\<lparr>burstThreshold := None\<rparr>"

definition jan5 :: Date where
  "jan5 = \<lparr>getFullYear = 2025, getMonth = 0, getDate = 5\<rparr>"

definition jan15 :: Date where
  "jan15 = \<lparr>getFullYear = 2025, getMonth = 0, getDate = 15\<rparr>"

definition alice :: Subscriber where
  "alice = \<lparr>sub_id = ''s1'', sub_username = ''alice'', planId = Some ''gold'',
            expiryDate = Some jan5, macAddress = Some ''aa:bb:cc:dd:ee:ff'', staticIp = None\<rparr>"

definition bob :: Subscriber where
  "bob = \<lparr>sub_id = ''s2'', sub_username = ''bob'', planId = None,
          expiryDate = None, macAddress = None, staticIp = None\<rparr>"

definition store_empty :: Store where
  "store_empty = \<lparr>radCheck = [], radReply = [], radUserGroup = [], radGroupCheck = [],
                  radGroupReply = [], radAcct = []\<rparr>"

definition store_stale_membership :: Store where
  "store_stale_membership =
     store_empty\<lparr>radUserGroup :=
       [\<lparr>ug_username = ''acme_alice'', ug_groupname = ''acme_silver'', ug_priority = 1\<rparr>]\<rparr>"

definition store_bob :: Store where
  "store_bob =
     store_empty\<lparr>radCheck :=
       [\<lparr>rc_username = ''acme_bob'', rc_attribute = ''Cleartext-Password'', rc_op = '':='',
         rc_value = ''hunter2''\<rparr>,
        \<lparr>rc_username = ''acme_bob'', rc_attribute = ''Expiration'', rc_op = '':='',
         rc_value = ''Jan 5 2025 23:59:59''\<rparr>,
        \<lparr>rc_username = ''acme_bob'', rc_attribute = ''Calling-Station-Id'', rc_op = '':='',
         rc_value = ''AA:BB:CC:DD:EE:FF''\<rparr>]\<rparr>"

definition session_20 :: RadAcct where
  "session_20 = \<lparr>acct_username = ''acme_alice'', nasipaddress = ''10.0.0.1'',
     acctstarttime = Some (5000000 - 20 * 60 * 1000), acctupdatetime = None,
     acctstoptime = None, acctterminatecause = []\<rparr>"

definition session_10 :: RadAcct where
  "session_10 = \<lparr>acct_username = ''acme_alice'', nasipaddress = ''10.0.0.1'',
     acctstarttime = Some (5000000 - 10 * 60 * 1000), acctupdatetime = None,
     acctstoptime = None, acctterminatecause = []\<rparr>"

definition session_other_tenant :: RadAcct where
  "session_other_tenant = \<lparr>acct_username = ''other_bob'', nasipaddress = ''10.0.0.2'',
     acctstarttime = Some 0, acctupdatetime = Some 1000,
     acctstoptime = None, acctterminatecause = []\<rparr>"

definition store_acct :: "RadAcct list \<Rightarrow> Store" where
  "store_acct rows = store_empty\<lparr>radAcct := rows\<rparr>"

definition coa_timeout :: "'a \<Rightarrow> error + bool" where
  "coa_timeout request = Inl (Error ''timeout'')"

definition coa_nak :: "'a \<Rightarrow> error + bool" where
  "coa_nak request = Inr False"

definition coa_ack :: "'a \<Rightarrow> error + bool" where
  "coa_ack request = Inr True"

section \<open>Properties of the string primitives\<close>

lemma js_split_not_Nil: "js_split sep s \<noteq> []"
  by (induction s) (auto split: list.splits)

lemma js_split_no_sep: "sep \<notin> set s \<Longrightarrow> js_split sep s = [s]"
  by (induction s) auto

lemma js_split_append_sep:
  "sep \<notin> set t \<Longrightarrow> js_split sep (t @ sep # u) = t # js_split sep u"
  by (induction t) auto

lemma js_join_cons: "ps \<noteq> [] \<Longrightarrow> js_join sep (p # ps) = p @ sep @ js_join sep ps"
  by (cases ps) auto

lemma js_join_split: "js_join [sep] (js_split sep u) = u"
proof (induction u)
  case Nil
  show ?case by simp
next
  case (Cons c cs)
  show ?case
  proof (cases "c = sep")
    case True
    then show ?thesis using Cons by (simp add: js_join_cons js_split_not_Nil)
  next
    case False
    obtain p ps where sp: "js_split sep cs = p # ps"
      using js_split_not_Nil [of sep cs] by (cases "js_split sep cs") auto
    have "js_join [sep] ((c # p) # ps) = c # js_join [sep] (p # ps)"
      by (cases ps) auto
    then show ?thesis using Cons False sp by simp
  qed
qed

lemma js_split_fields5:
  assumes "sep \<notin> set a" "sep \<notin> set b" "sep \<notin> set c" "sep \<notin> set d" "sep \<notin> set e"
  shows "js_split sep (a @ [sep] @ b @ [sep] @ c @ [sep] @ d @ [sep] @ e) = [a, b, c, d, e]"
  using assms by (simp add: js_split_append_sep js_split_no_sep)

lemma of_char_digit_char: "d < 10 \<Longrightarrow> (of_char (digit_char d) :: nat) = 48 + d"
  by (simp add: digit_char_def)

lemma string_of_nat_range:
  "c \<in> set (string_of_nat n) \<Longrightarrow> 48 \<le> (of_char c :: nat) \<and> (of_char c :: nat) < 58"
proof (induction n rule: string_of_nat.induct)
  case (1 n)
  show ?case
  proof (cases "n < 10")
    case True
    then have "string_of_nat n = [digit_char n]"
      by (subst string_of_nat.simps) simp
    with 1(2) have "c = digit_char n" by simp
    with True show ?thesis by (simp add: of_char_digit_char)
  next
    case False
    then have eq: "string_of_nat n = string_of_nat (n div 10) @ [digit_char (n mod 10)]"
      by (subst string_of_nat.simps) simp
    from 1(2) eq consider "c \<in> set (string_of_nat (n div 10))" | "c = digit_char (n mod 10)"
      by auto
    then show ?thesis
    proof cases
      case 1
      then show ?thesis using "1.IH" [OF False] by simp
    next
      case 2
      have "n mod 10 < 10" by simp
      then show ?thesis using 2 by (simp only: of_char_digit_char) simp
    qed
  qed
qed

lemma String_no_space: "CHR '' '' \<notin> set (String i)"
proof
  assume a: "CHR '' '' \<in> set (String i)"
  have sp: "(of_char CHR '' '' :: nat) = 32" by simp
  show False
  proof (cases "i < 0")
    case True
    with a have "CHR '' '' \<in> set (string_of_nat (nat (- i)))" by (simp add: String_def)
    from string_of_nat_range [OF this] sp show False by simp
  next
    case False
    with a have "CHR '' '' \<in> set (string_of_nat (nat i))" by (simp add: String_def)
    from string_of_nat_range [OF this] sp show False by simp
  qed
qed

lemma length_string_of_nat_small: "n < 10 \<Longrightarrow> length (string_of_nat n) = 1"
  by (subst string_of_nat.simps) simp

lemma length_string_of_nat_step:
  "10 \<le> n \<Longrightarrow> length (string_of_nat n) = Suc (length (string_of_nat (n div 10)))"
  by (subst string_of_nat.simps) simp

lemma length_string_of_nat_2: "10 \<le> n \<Longrightarrow> n < 100 \<Longrightarrow> length (string_of_nat n) = 2"
  by (simp add: length_string_of_nat_step length_string_of_nat_small)

lemma length_string_of_nat_3: "100 \<le> n \<Longrightarrow> n < 1000 \<Longrightarrow> length (string_of_nat n) = 3"
proof -
  assume a: "100 \<le> n" "n < 1000"
  then have "10 \<le> n div 10" "n div 10 < 100" by arith+
  then have "length (string_of_nat (n div 10)) = 2" by (rule length_string_of_nat_2)
  with a show ?thesis by (simp add: length_string_of_nat_step)
qed

lemma length_string_of_nat_4: "1000 \<le> n \<Longrightarrow> n < 10000 \<Longrightarrow> length (string_of_nat n) = 4"
proof -
  assume a: "1000 \<le> n" "n < 10000"
  then have "100 \<le> n div 10" "n div 10 < 1000" by arith+
  then have "length (string_of_nat (n div 10)) = 3" by (rule length_string_of_nat_3)
  with a show ?thesis by (simp add: length_string_of_nat_step)
qed

lemma String_examples:
  "String 50 = ''50''" "String 30 = ''30''" "String 100 = ''100''" "String 10 = ''10''"
  "String 1 = ''1''"
  by code_simp+

section \<open>Namespace mapper\<close>

text \<open>
  C4. For every tenant slug without an underscore and every local username, also one
  with underscores, extracting the subscriber username from the namespaced username
  gives back the local username.
\<close>

theorem extract_build_roundtrip:
  "CHR ''_'' \<notin> set tenant \<Longrightarrow>
     extractSubscriberUsername (buildRadiusUsername tenant localUsername) = localUsername"
  by (simp add: extractSubscriberUsername_def buildRadiusUsername_def
      js_split_append_sep js_join_split)

theorem extract_build_roundtrip_witness:
  "CHR ''_'' \<notin> set ''acme'' \<and>
     extractSubscriberUsername (buildRadiusUsername ''acme'' ''john_doe_2'') = ''john_doe_2''"
  using extract_build_roundtrip [of "''acme''" "''john_doe_2''"] by simp

section \<open>Attribute encoder\<close>

lemma unit_of_no_space: "CHR '' '' \<notin> set (unit_of plan)"
  by (simp add: unit_of_def)

lemma thresholdRx_no_space: "CHR '' '' \<notin> set (thresholdRx plan)"
  by (simp add: thresholdRx_def String_no_space)

lemma burst_configured_iff:
  "burst_configured plan \<longleftrightarrow>
     (\<exists>bd bu bt. burstDownloadSpeed plan = Some bd \<and> bd \<noteq> 0
        \<and> burstUploadSpeed plan = Some bu \<and> bu \<noteq> 0
        \<and> burstTime plan = Some bt \<and> bt \<noteq> 0)"
  by (cases "burstDownloadSpeed plan"; cases "burstUploadSpeed plan"; cases "burstTime plan")
     (simp_all add: burst_configured_def)

lemma thresholdRx_eq:
  "thresholdRx plan =
     (case burstThreshold plan of
        None \<Rightarrow> ''0''
      | Some t \<Rightarrow> if t = 0 then ''0'' else String t @ ''k'')"
  by (cases "burstThreshold plan") (simp_all add: thresholdRx_def)

lemma rate_limit_base:
  "\<not> burst_configured plan \<Longrightarrow>
     buildMikroTikRateLimit plan =
       String (downloadSpeed plan) @ unit_of plan @ ''/'' @ String (uploadSpeed plan) @ unit_of plan"
  by (simp add: buildMikroTikRateLimit_def Let_def)

lemma rate_limit_extended:
  "burst_configured plan \<Longrightarrow>
     buildMikroTikRateLimit plan =
       (String (downloadSpeed plan) @ unit_of plan @ ''/'' @ String (uploadSpeed plan) @ unit_of plan)
       @ [CHR '' ''] @
       (String (the (burstDownloadSpeed plan)) @ unit_of plan @ ''/''
          @ String (the (burstUploadSpeed plan)) @ unit_of plan)
       @ [CHR '' ''] @
       (thresholdRx plan @ ''/'' @ thresholdRx plan)
       @ [CHR '' ''] @
       (String (the (burstTime plan)) @ ''s/'' @ String (the (burstTime plan)) @ ''s'')
       @ [CHR '' ''] @
       String (priority plan)"
  by (simp add: buildMikroTikRateLimit_def Let_def)

lemma rate_limit_fields:
  assumes "burst_configured plan"
  shows "js_split CHR '' '' (buildMikroTikRateLimit plan) =
       [String (downloadSpeed plan) @ unit_of plan @ ''/'' @ String (uploadSpeed plan) @ unit_of plan,
        String (the (burstDownloadSpeed plan)) @ unit_of plan @ ''/''
          @ String (the (burstUploadSpeed plan)) @ unit_of plan,
        thresholdRx plan @ ''/'' @ thresholdRx plan,
        String (the (burstTime plan)) @ ''s/'' @ String (the (burstTime plan)) @ ''s'',
        String (priority plan)]"
  unfolding rate_limit_extended [OF assms]
  by (rule js_split_fields5) (simp_all add: String_no_space unit_of_no_space thresholdRx_no_space)

lemma rate_limit_example_base:
  "buildMikroTikRateLimit
     \<lparr>plan_id = pid, downloadSpeed = 50, uploadSpeed = 30, speedUnit = ''MBPS'',
      burstDownloadSpeed = None, burstUploadSpeed = None, burstThreshold = None,
      burstTime = None, priority = prio, poolName = pool, validityUnit = vu,
      validityDays = vd, simultaneousDevices = sim\<rparr> = ''50M/30M''"
  by (simp add: buildMikroTikRateLimit_def burst_configured_def unit_of_def String_examples)

lemma rate_limit_example_burst:
  "buildMikroTikRateLimit
     \<lparr>plan_id = pid, downloadSpeed = 50, uploadSpeed = 30, speedUnit = ''MBPS'',
      burstDownloadSpeed = Some 100, burstUploadSpeed = Some 50, burstThreshold = Some 100,
      burstTime = Some 10, priority = 1, poolName = pool, validityUnit = vu,
      validityDays = vd, simultaneousDevices = sim\<rparr>
   = ''50M/30M 100M/50M 100k/100k 10s/10s 1''"
  by (simp add: buildMikroTikRateLimit_def burst_configured_def unit_of_def thresholdRx_def
      String_examples)

text \<open>
  C2. When one of burst download, burst upload and burst time is missing or zero, the
  rate limit is the base form, download and upload speed each followed by the unit,
  \<open>M\<close> for \<open>MBPS\<close> plans and \<open>k\<close> otherwise. When all three are present and not zero, it
  splits at the spaces into exactly five fields: the base form, the burst speeds, the
  threshold twice, the burst time twice with \<open>s\<close>, and the priority; the threshold is
  written with \<open>k\<close> when it is present and not zero and as \<open>0\<close> otherwise. The two example
  plans give \<open>50M/30M\<close> and \<open>50M/30M 100M/50M 100k/100k 10s/10s 1\<close>.
\<close>

theorem buildMikroTikRateLimit_forms:
  "(burst_configured plan \<longleftrightarrow>
      (\<exists>bd bu bt. burstDownloadSpeed plan = Some bd \<and> bd \<noteq> 0
         \<and> burstUploadSpeed plan = Some bu \<and> bu \<noteq> 0
         \<and> burstTime plan = Some bt \<and> bt \<noteq> 0))
   \<and> unit_of plan = (if speedUnit plan = ''MBPS'' then ''M'' else ''k'')
   \<and> thresholdRx plan =
       (case burstThreshold plan of
          None \<Rightarrow> ''0''
        | Some t \<Rightarrow> if t = 0 then ''0'' else String t @ ''k'')
   \<and> (\<not> burst_configured plan \<longrightarrow>
        buildMikroTikRateLimit plan =
          String (downloadSpeed plan) @ unit_of plan @ ''/''
            @ String (uploadSpeed plan) @ unit_of plan)
   \<and> (burst_configured plan \<longrightarrow>
        js_split CHR '' '' (buildMikroTikRateLimit plan) =
          [String (downloadSpeed plan) @ unit_of plan @ ''/''
             @ String (uploadSpeed plan) @ unit_of plan,
           String (the (burstDownloadSpeed plan)) @ unit_of plan @ ''/''
             @ String (the (burstUploadSpeed plan)) @ unit_of plan,
           thresholdRx plan @ ''/'' @ thresholdRx plan,
           String (the (burstTime plan)) @ ''s/'' @ String (the (burstTime plan)) @ ''s'',
           String (priority plan)])
   \<and> buildMikroTikRateLimit
        \<lparr>plan_id = pid, downloadSpeed = 50, uploadSpeed = 30, speedUnit = ''MBPS'',
         burstDownloadSpeed = None, burstUploadSpeed = None, burstThreshold = None,
         burstTime = None, priority = prio, poolName = pool, validityUnit = vu,
         validityDays = vd, simultaneousDevices = sim\<rparr> = ''50M/30M''
   \<and> buildMikroTikRateLimit
        \<lparr>plan_id = pid, downloadSpeed = 50, uploadSpeed = 30, speedUnit = ''MBPS'',
         burstDownloadSpeed = Some 100, burstUploadSpeed = Some 50, burstThreshold = Some 100,
         burstTime = Some 10, priority = 1, poolName = pool, validityUnit = vu,
         validityDays = vd, simultaneousDevices = sim\<rparr>
       = ''50M/30M 100M/50M 100k/100k 10s/10s 1''"
  by (intro conjI impI burst_configured_iff unit_of_def thresholdRx_eq rate_limit_base
      rate_limit_fields rate_limit_example_base rate_limit_example_burst)

theorem buildMikroTikRateLimit_forms_witness:
  "\<not> burst_configured plan_no_burst
   \<and> buildMikroTikRateLimit plan_no_burst = ''50M/30M''
   \<and> burst_configured plan_burst
   \<and> js_split CHR '' '' (buildMikroTikRateLimit plan_burst)
       = [''50M/30M'', ''100M/50M'', ''100k/100k'', ''10s/10s'', ''1'']"
  using buildMikroTikRateLimit_forms [of plan_no_burst]
    buildMikroTikRateLimit_forms [of plan_burst]
  by (simp add: plan_no_burst_def plan_burst_def burst_configured_def unit_of_def
      thresholdRx_def String_examples)

text \<open>
  C3, as the code has it. When the three burst fields are present and not zero and the
  burst threshold is absent or zero, the third field of the rate limit is \<open>0/0\<close>: the
  zero carries no \<open>k\<close> suffix.
\<close>

theorem threshold_field_absent:
  "burst_configured plan \<Longrightarrow> \<not> truthy_num (burstThreshold plan) \<Longrightarrow>
     js_split CHR '' '' (buildMikroTikRateLimit plan) ! 2 = ''0/0''"
  by (simp add: rate_limit_fields thresholdRx_def)

theorem threshold_field_absent_witness:
  "burst_configured plan_burst_no_threshold
   \<and> \<not> truthy_num (burstThreshold plan_burst_no_threshold)
   \<and> js_split CHR '' '' (buildMikroTikRateLimit plan_burst_no_threshold) ! 2 = ''0/0''"
  using threshold_field_absent [of plan_burst_no_threshold]
  by (simp add: plan_burst_no_threshold_def plan_burst_def plan_no_burst_def
      burst_configured_def)

text \<open>
  The claim C3 as stated, that this field is \<open>0k/0k\<close>, fails on the example plan with
  burst speeds 100 and 50, burst time 10 and no threshold.
\<close>

theorem threshold_field_0k_counterexample:
  "burst_configured plan_burst_no_threshold
   \<and> \<not> truthy_num (burstThreshold plan_burst_no_threshold)
   \<and> js_split CHR '' '' (buildMikroTikRateLimit plan_burst_no_threshold) ! 2 \<noteq> ''0k/0k''"
  by code_simp

section \<open>Store operations\<close>

lemmas tx_defs = radCheck_deleteMany_def radCheck_create_def radUserGroup_deleteMany_def
  radUserGroup_create_def radUserGroup_findFirst_def radGroupReply_deleteMany_def
  radGroupReply_create_def radGroupCheck_deleteMany_def radGroupCheck_create_def

lemma transaction_Inr: "transaction fault body s = Inr s' \<longleftrightarrow> fault = None \<and> s' = body s"
  by (auto simp: transaction_def split: option.splits)

lemma store_eq_iff:
  "(a :: Store) = b \<longleftrightarrow>
     radCheck a = radCheck b \<and> radReply a = radReply b \<and> radUserGroup a = radUserGroup b
     \<and> radGroupCheck a = radGroupCheck b \<and> radGroupReply a = radGroupReply b
     \<and> radAcct a = radAcct b"
  by (cases a; cases b) auto

lemma sel_upd:
  "radCheck (s\<lparr>radCheck := a, radUserGroup := b\<rparr>) = a"
  "radUserGroup (s\<lparr>radCheck := a, radUserGroup := b\<rparr>) = b"
  by simp_all

lemma filter_filter_disjoint:
  "(\<And>x. P x \<Longrightarrow> \<not> Q x) \<Longrightarrow> filter P (filter (\<lambda>x. \<not> Q x) xs) = filter P xs"
  by (induction xs) auto

lemma filter_filter_same:
  "filter P (filter (\<lambda>x. \<not> P x) xs) = []"
  by (induction xs) auto

lemma filter_filter_implied:
  "(\<And>x. P x \<Longrightarrow> Q x) \<Longrightarrow> filter P (filter Q xs) = filter P xs"
  by (induction xs) auto

lemma filter_idem_same: "filter P (filter P xs) = filter P xs"
  by (induction xs) auto

lemma filter_map_const_False:
  "(\<And>x. \<not> P (f x)) \<Longrightarrow> filter P (map f xs) = []"
  by (induction xs) auto

lemma find_filter_neq: "find (\<lambda>r. f r = u) (filter (\<lambda>r. f r \<noteq> u) xs) = None"
  by (simp add: find_None_iff)

lemma check_where_keep:
  "a \<noteq> b \<Longrightarrow>
     filter (check_where u a) (filter (\<lambda>r. \<not> check_where u b r) xs) = filter (check_where u a) xs"
  by (rule filter_filter_disjoint) (simp add: check_where_def)

lemma check_where_drop:
  "filter (check_where u a) (filter (\<lambda>r. \<not> check_where u a r) xs) = []"
  by (rule filter_filter_same)

lemma check_where_row:
  "check_where u a \<lparr>rc_username = u', rc_attribute = b, rc_op = opr, rc_value = v\<rparr>
     \<longleftrightarrow> u' = u \<and> b = a"
  by (simp add: check_where_def)

section \<open>Disabling a subscriber\<close>

lemma disable_tx_closed:
  "disableSubscriberRadius_tx tenant username s =
     s\<lparr>radCheck :=
         filter (\<lambda>r. \<not> check_where (buildRadiusUsername tenant username) ''Auth-Type'' r) (radCheck s)
         @ [\<lparr>rc_username = buildRadiusUsername tenant username, rc_attribute = ''Auth-Type'',
             rc_op = '':='', rc_value = ''Reject''\<rparr>],
       radUserGroup :=
         filter (\<lambda>r. ug_username r \<noteq> buildRadiusUsername tenant username) (radUserGroup s)\<rparr>"
  by (simp add: disableSubscriberRadius_tx_def Let_def tx_defs deleteMany_def create_def)

lemma disable_radCheck:
  "radCheck (disableSubscriberRadius_tx tenant username s) =
     filter (\<lambda>r. \<not> check_where (buildRadiusUsername tenant username) ''Auth-Type'' r) (radCheck s)
     @ [\<lparr>rc_username = buildRadiusUsername tenant username, rc_attribute = ''Auth-Type'',
         rc_op = '':='', rc_value = ''Reject''\<rparr>]"
  by (simp add: disableSubscriberRadius_tx_def Let_def tx_defs deleteMany_def create_def)

lemma disable_radUserGroup:
  "radUserGroup (disableSubscriberRadius_tx tenant username s) =
     filter (\<lambda>r. ug_username r \<noteq> buildRadiusUsername tenant username) (radUserGroup s)"
  by (simp add: disableSubscriberRadius_tx_def Let_def tx_defs deleteMany_def create_def)

lemma disable_frame:
  "radReply (disableSubscriberRadius_tx tenant username s) = radReply s"
  "radGroupCheck (disableSubscriberRadius_tx tenant username s) = radGroupCheck s"
  "radGroupReply (disableSubscriberRadius_tx tenant username s) = radGroupReply s"
  "radAcct (disableSubscriberRadius_tx tenant username s) = radAcct s"
  by (subst disable_tx_closed, simp)+

text \<open>
  C1. After \<open>disableSubscriberRadius\<close> has completed, the check table holds for the
  namespaced username exactly one \<open>Auth-Type\<close> row, with value \<open>Reject\<close>, and the
  membership table holds no row for that username, whatever the tables held before.
\<close>

theorem disable_rejects_and_strips:
  assumes "disableSubscriberRadius fault tenant username s = Inr s'"
  shows "filter (check_where (buildRadiusUsername tenant username) ''Auth-Type'') (radCheck s')
           = [\<lparr>rc_username = buildRadiusUsername tenant username, rc_attribute = ''Auth-Type'',
               rc_op = '':='', rc_value = ''Reject''\<rparr>]
         \<and> filter (\<lambda>r. ug_username r = buildRadiusUsername tenant username) (radUserGroup s') = []"
proof -
  from assms have s': "s' = disableSubscriberRadius_tx tenant username s"
    by (simp add: disableSubscriberRadius_def transaction_Inr)
  show ?thesis
    unfolding s' disable_radCheck disable_radUserGroup
    by (simp add: check_where_def)
qed

theorem disable_rejects_and_strips_witness:
  "disableSubscriberRadius None ''acme'' ''alice'' store_stale_membership
     = Inr (disableSubscriberRadius_tx ''acme'' ''alice'' store_stale_membership)
   \<and> filter (check_where ''acme_alice'' ''Auth-Type'')
       (radCheck (disableSubscriberRadius_tx ''acme'' ''alice'' store_stale_membership))
     = [\<lparr>rc_username = ''acme_alice'', rc_attribute = ''Auth-Type'', rc_op = '':='',
         rc_value = ''Reject''\<rparr>]
   \<and> filter (\<lambda>r. ug_username r = ''acme_alice'')
       (radUserGroup (disableSubscriberRadius_tx ''acme'' ''alice'' store_stale_membership)) = []"
proof -
  have h: "disableSubscriberRadius None ''acme'' ''alice'' store_stale_membership
     = Inr (disableSubscriberRadius_tx ''acme'' ''alice'' store_stale_membership)"
    by (simp add: disableSubscriberRadius_def transaction_def)
  show ?thesis
    using h disable_rejects_and_strips [OF h] by (simp add: buildRadiusUsername_def)
qed

section \<open>Synchronising a plan\<close>

lemma create_reply_attributes_eq:
  "create_reply_attributes g attrs s =
     s\<lparr>radGroupReply := radGroupReply s
         @ map (\<lambda>attr. \<lparr>gr_groupname = g, gr_attribute = attr_attribute attr, gr_op = '':='',
                         gr_value = attr_value attr, gr_priority = attr_priority attr\<rparr>) attrs\<rparr>"
  by (induction attrs arbitrary: s) (simp_all add: radGroupReply_create_def create_def)

lemma syncPlanBandwidth_tx_eq:
  "syncPlanBandwidth_tx tenant plan s =
     s\<lparr>radGroupReply :=
          filter (\<lambda>r. gr_groupname r \<noteq> buildRadiusGroupname tenant (plan_id plan)) (radGroupReply s)
          @ map (\<lambda>attr. \<lparr>gr_groupname = buildRadiusGroupname tenant (plan_id plan),
                          gr_attribute = attr_attribute attr, gr_op = '':='',
                          gr_value = attr_value attr, gr_priority = attr_priority attr\<rparr>)
              (planToRadiusAttributes plan),
        radGroupCheck :=
          filter (\<lambda>r. gc_groupname r \<noteq> buildRadiusGroupname tenant (plan_id plan)) (radGroupCheck s)
          @ [\<lparr>gc_groupname = buildRadiusGroupname tenant (plan_id plan),
              gc_attribute = ''Simultaneous-Use'', gc_op = '':='',
              gc_value = String (if truthy_num (simultaneousDevices plan)
                                 then the (simultaneousDevices plan) else 1)\<rparr>]\<rparr>"
  by (simp add: syncPlanBandwidth_tx_def Let_def create_reply_attributes_eq tx_defs deleteMany_def create_def)

lemma syncPlanBandwidth_tx_idem:
  "syncPlanBandwidth_tx tenant plan (syncPlanBandwidth_tx tenant plan s) =
     syncPlanBandwidth_tx tenant plan s"
  by (simp add: syncPlanBandwidth_tx_eq filter_map_const_False)

text \<open>
  C5. When \<open>syncPlanBandwidth\<close> has run twice in succession on the same plan, the
  group-check table holds exactly one row for the plan's group, \<open>Simultaneous-Use\<close> with
  the plan's device limit (1 when the limit is unset or zero), and the second run has
  left the group-reply table, and the whole store, as the first run left it.
\<close>

theorem syncPlanBandwidth_twice:
  assumes "syncPlanBandwidth fault1 tenant plan s = Inr s1"
      and "syncPlanBandwidth fault2 tenant plan s1 = Inr s2"
  shows "filter (\<lambda>r. gc_groupname r = buildRadiusGroupname tenant (plan_id plan)) (radGroupCheck s2)
           = [\<lparr>gc_groupname = buildRadiusGroupname tenant (plan_id plan),
               gc_attribute = ''Simultaneous-Use'', gc_op = '':='',
               gc_value = String (case simultaneousDevices plan of
                                    None \<Rightarrow> 1 | Some n \<Rightarrow> if n = 0 then 1 else n)\<rparr>]
         \<and> radGroupReply s2 = radGroupReply s1
         \<and> s2 = s1"
proof -
  from assms have s1: "s1 = syncPlanBandwidth_tx tenant plan s"
    and s2: "s2 = syncPlanBandwidth_tx tenant plan s1"
    by (simp_all add: syncPlanBandwidth_def transaction_Inr)
  have eq: "s2 = s1" unfolding s2 s1 by (rule syncPlanBandwidth_tx_idem)
  have "filter (\<lambda>r. gc_groupname r = buildRadiusGroupname tenant (plan_id plan)) (radGroupCheck s1)
           = [\<lparr>gc_groupname = buildRadiusGroupname tenant (plan_id plan),
               gc_attribute = ''Simultaneous-Use'', gc_op = '':='',
               gc_value = String (case simultaneousDevices plan of
                                    None \<Rightarrow> 1 | Some n \<Rightarrow> if n = 0 then 1 else n)\<rparr>]"
    unfolding s1 syncPlanBandwidth_tx_eq
    by (cases "simultaneousDevices plan") simp_all
  with eq show ?thesis by simp
qed

theorem syncPlanBandwidth_twice_witness:
  "syncPlanBandwidth None ''acme'' plan_burst store_empty
     = Inr (syncPlanBandwidth_tx ''acme'' plan_burst store_empty)
   \<and> syncPlanBandwidth None ''acme'' plan_burst (syncPlanBandwidth_tx ''acme'' plan_burst store_empty)
     = Inr (syncPlanBandwidth_tx ''acme'' plan_burst
              (syncPlanBandwidth_tx ''acme'' plan_burst store_empty))
   \<and> filter (\<lambda>r. gc_groupname r = ''acme_p1'')
       (radGroupCheck (syncPlanBandwidth_tx ''acme'' plan_burst
          (syncPlanBandwidth_tx ''acme'' plan_burst store_empty)))
     = [\<lparr>gc_groupname = ''acme_p1'', gc_attribute = ''Simultaneous-Use'', gc_op = '':='',
         gc_value = ''1''\<rparr>]"
proof -
  have h1: "syncPlanBandwidth None ''acme'' plan_burst store_empty
     = Inr (syncPlanBandwidth_tx ''acme'' plan_burst store_empty)"
    by (simp add: syncPlanBandwidth_def transaction_def)
  have h2: "syncPlanBandwidth None ''acme'' plan_burst
       (syncPlanBandwidth_tx ''acme'' plan_burst store_empty)
     = Inr (syncPlanBandwidth_tx ''acme'' plan_burst
              (syncPlanBandwidth_tx ''acme'' plan_burst store_empty))"
    by (simp add: syncPlanBandwidth_def transaction_def)
  have p: "plan_id plan_burst = ''p1''" "simultaneousDevices plan_burst = None"
    by (simp_all add: plan_burst_def plan_no_burst_def)
  have "filter (\<lambda>r. gc_groupname r = buildRadiusGroupname ''acme'' (plan_id plan_burst))
       (radGroupCheck (syncPlanBandwidth_tx ''acme'' plan_burst
          (syncPlanBandwidth_tx ''acme'' plan_burst store_empty)))
     = [\<lparr>gc_groupname = buildRadiusGroupname ''acme'' (plan_id plan_burst),
         gc_attribute = ''Simultaneous-Use'', gc_op = '':='',
         gc_value = String (case simultaneousDevices plan_burst of
                              None \<Rightarrow> 1 | Some n \<Rightarrow> if n = 0 then 1 else n)\<rparr>]"
    using syncPlanBandwidth_twice [OF h1 h2] by (rule conjunct1)
  then have "filter (\<lambda>r. gc_groupname r = ''acme_p1'')
       (radGroupCheck (syncPlanBandwidth_tx ''acme'' plan_burst
          (syncPlanBandwidth_tx ''acme'' plan_burst store_empty)))
     = [\<lparr>gc_groupname = ''acme_p1'', gc_attribute = ''Simultaneous-Use'', gc_op = '':='',
         gc_value = ''1''\<rparr>]"
    by (simp add: p buildRadiusGroupname_def String_examples)
  with h1 h2 show ?thesis by (intro conjI)
qed

section \<open>Device control\<close>

text \<open>
  C9. \<open>disconnectUser\<close> and \<open>changeUserBandwidth\<close> never throw, whatever the CoA send
  does: each returns a boolean, which is true exactly when the send resolved to true;
  a send that resolves to false or that throws gives false.
\<close>

theorem control_never_throws:
  "disconnectUser sendCoaDisconnect nasIp username secret
     = Inr (sendCoaDisconnect \<lparr>cd_nasIp = nasIp, cd_secret = secret, cd_username = username\<rparr>
            = Inr True)
   \<and> changeUserBandwidth sendCoaChangeRate nasIp username secret rateLimit
     = Inr (sendCoaChangeRate \<lparr>cr_nasIp = nasIp, cr_secret = secret, cr_username = username,
                               cr_rateLimit = rateLimit\<rparr>
            = Inr True)"
  by (auto simp: disconnectUser_def changeUserBandwidth_def split: sum.splits)

theorem control_never_throws_witness:
  "disconnectUser coa_timeout ''10.0.0.1'' ''acme_alice'' ''secret'' = Inr False
   \<and> changeUserBandwidth coa_nak ''10.0.0.1'' ''acme_alice'' ''secret'' ''50M/30M'' = Inr False
   \<and> disconnectUser coa_ack ''10.0.0.1'' ''acme_alice'' ''secret'' = Inr True"
  using control_never_throws [of coa_timeout "''10.0.0.1''" "''acme_alice''" "''secret''"
      coa_nak "''50M/30M''"]
    control_never_throws [of coa_ack "''10.0.0.1''" "''acme_alice''" "''secret''"
      coa_nak "''50M/30M''"]
  by (simp add: coa_timeout_def coa_nak_def coa_ack_def)

section \<open>Synchronising the credentials of a subscriber\<close>

lemma syncSubscriberAuth_tx_None:
  "syncSubscriberAuth_tx tenant subscriber None s =
     s\<lparr>radCheck :=
         filter (\<lambda>r. \<not> check_where (buildRadiusUsername tenant (sub_username subscriber)) ''Calling-Station-Id'' r)
           (filter (\<lambda>r. \<not> check_where (buildRadiusUsername tenant (sub_username subscriber)) ''Expiration'' r)
              (radCheck s)
            @ (case expiryDate subscriber of
                 None \<Rightarrow> []
               | Some d \<Rightarrow> [\<lparr>rc_username = buildRadiusUsername tenant (sub_username subscriber),
                              rc_attribute = ''Expiration'', rc_op = '':='',
                              rc_value = formatRadiusExpiration d\<rparr>]))
         @ (if truthy_str (macAddress subscriber)
            then [\<lparr>rc_username = buildRadiusUsername tenant (sub_username subscriber),
                   rc_attribute = ''Calling-Station-Id'', rc_op = '':='',
                   rc_value = toUpperCase (the (macAddress subscriber))\<rparr>]
            else [])\<rparr>"
  by (simp add: syncSubscriberAuth_tx_def Let_def tx_defs deleteMany_def create_def split: option.splits)

text \<open>
  C10. When \<open>syncSubscriberAuth\<close> is called without a password and completes, the
  \<open>Cleartext-Password\<close> rows of the namespaced username are the ones the table held
  before; its \<open>Expiration\<close> rows are the one row made from the expiry date, or none
  when the subscriber has no expiry date; its \<open>Calling-Station-Id\<close> rows are the one
  row with the upper-cased MAC address, or none when the MAC address is absent or empty.
\<close>

theorem syncSubscriberAuth_without_password:
  assumes "syncSubscriberAuth fault tenant subscriber None s = Inr s'"
  shows "filter (check_where (buildRadiusUsername tenant (sub_username subscriber)) ''Cleartext-Password'')
             (radCheck s')
           = filter (check_where (buildRadiusUsername tenant (sub_username subscriber)) ''Cleartext-Password'')
               (radCheck s)
         \<and> filter (check_where (buildRadiusUsername tenant (sub_username subscriber)) ''Expiration'')
             (radCheck s')
           = (case expiryDate subscriber of
                None \<Rightarrow> []
              | Some d \<Rightarrow> [\<lparr>rc_username = buildRadiusUsername tenant (sub_username subscriber),
                             rc_attribute = ''Expiration'', rc_op = '':='',
                             rc_value = formatRadiusExpiration d\<rparr>])
         \<and> filter (check_where (buildRadiusUsername tenant (sub_username subscriber)) ''Calling-Station-Id'')
             (radCheck s')
           = (case macAddress subscriber of
                None \<Rightarrow> []
              | Some mac \<Rightarrow>
                  if mac = [] then []
                  else [\<lparr>rc_username = buildRadiusUsername tenant (sub_username subscriber),
                         rc_attribute = ''Calling-Station-Id'', rc_op = '':='',
                         rc_value = toUpperCase mac\<rparr>])"
proof -
  let ?u = "buildRadiusUsername tenant (sub_username subscriber)"
  from assms have s': "s' = syncSubscriberAuth_tx tenant subscriber None s"
    by (simp add: syncSubscriberAuth_def transaction_Inr)
  have pw: "filter (check_where ?u ''Cleartext-Password'') (radCheck s')
              = filter (check_where ?u ''Cleartext-Password'') (radCheck s)"
    unfolding s' syncSubscriberAuth_tx_None
    by (simp add: check_where_keep check_where_drop check_where_row del: filter_filter split: option.splits)
  have ex: "filter (check_where ?u ''Expiration'') (radCheck s')
           = (case expiryDate subscriber of
                None \<Rightarrow> []
              | Some d \<Rightarrow> [\<lparr>rc_username = ?u, rc_attribute = ''Expiration'', rc_op = '':='',
                             rc_value = formatRadiusExpiration d\<rparr>])"
    unfolding s' syncSubscriberAuth_tx_None
    by (simp add: check_where_keep check_where_drop check_where_row del: filter_filter split: option.splits)
  have mac: "filter (check_where ?u ''Calling-Station-Id'') (radCheck s')
           = (case macAddress subscriber of
                None \<Rightarrow> []
              | Some mac \<Rightarrow>
                  if mac = [] then []
                  else [\<lparr>rc_username = ?u, rc_attribute = ''Calling-Station-Id'', rc_op = '':='',
                         rc_value = toUpperCase mac\<rparr>])"
    unfolding s' syncSubscriberAuth_tx_None
    by (simp add: check_where_keep check_where_drop check_where_row del: filter_filter split: option.splits)
  from pw ex mac show ?thesis by simp
qed

theorem syncSubscriberAuth_without_password_witness:
  "syncSubscriberAuth None ''acme'' bob None store_bob
     = Inr (syncSubscriberAuth_tx ''acme'' bob None store_bob)
   \<and> filter (check_where ''acme_bob'' ''Cleartext-Password'')
       (radCheck (syncSubscriberAuth_tx ''acme'' bob None store_bob))
     = [\<lparr>rc_username = ''acme_bob'', rc_attribute = ''Cleartext-Password'', rc_op = '':='',
         rc_value = ''hunter2''\<rparr>]
   \<and> filter (check_where ''acme_bob'' ''Expiration'')
       (radCheck (syncSubscriberAuth_tx ''acme'' bob None store_bob)) = []
   \<and> filter (check_where ''acme_bob'' ''Calling-Station-Id'')
       (radCheck (syncSubscriberAuth_tx ''acme'' bob None store_bob)) = []"
proof -
  have h: "syncSubscriberAuth None ''acme'' bob None store_bob
     = Inr (syncSubscriberAuth_tx ''acme'' bob None store_bob)"
    by (simp add: syncSubscriberAuth_def transaction_def)
  have b: "sub_username bob = ''bob''" "expiryDate bob = None" "macAddress bob = None"
    by (simp_all add: bob_def)
  have c: "filter (check_where ''acme_bob'' ''Cleartext-Password'') (radCheck store_bob)
     = [\<lparr>rc_username = ''acme_bob'', rc_attribute = ''Cleartext-Password'', rc_op = '':='',
         rc_value = ''hunter2''\<rparr>]"
    by (simp add: store_bob_def store_empty_def check_where_def)
  show ?thesis
    using h c syncSubscriberAuth_without_password [OF h]
    by (simp add: b buildRadiusUsername_def)
qed

section \<open>Enabling, disabling and enabling again\<close>

lemma enable_tx_closed:
  "enableSubscriberRadius_tx tenant subscriber s =
     s\<lparr>radCheck :=
         filter (\<lambda>r. \<not> check_where (buildRadiusUsername tenant (sub_username subscriber)) ''Calling-Station-Id'' r)
           (filter (\<lambda>r. \<not> check_where (buildRadiusUsername tenant (sub_username subscriber)) ''Expiration'' r)
              (filter (\<lambda>r. \<not> check_where (buildRadiusUsername tenant (sub_username subscriber)) ''Auth-Type'' r)
                 (radCheck s))
            @ expiration_rows (buildRadiusUsername tenant (sub_username subscriber)) subscriber)
         @ station_rows (buildRadiusUsername tenant (sub_username subscriber)) subscriber,
       radUserGroup :=
         radUserGroup s
         @ (if find (\<lambda>r. ug_username r = buildRadiusUsername tenant (sub_username subscriber))
                 (radUserGroup s) = None
            then membership_rows tenant subscriber else [])\<rparr>"
  by (cases "expiryDate subscriber")
     (simp_all add: enableSubscriberRadius_tx_def Let_def tx_defs deleteMany_def create_def
        findFirst_def expiration_rows_def station_rows_def membership_rows_def
        del: filter_filter filter_append)

lemma unmanaged_expiration: "filter (\<lambda>r. \<not> managed u r) (expiration_rows u subscriber) = []"
  by (simp add: expiration_rows_def managed_def check_where_def split: option.splits)

lemma unmanaged_station: "filter (\<lambda>r. \<not> managed u r) (station_rows u subscriber) = []"
  by (simp add: station_rows_def managed_def check_where_def)

lemma station_keeps_expiration:
  "filter (\<lambda>r. \<not> check_where u ''Calling-Station-Id'' r) (expiration_rows u subscriber)
     = expiration_rows u subscriber"
  by (simp add: expiration_rows_def check_where_def split: option.splits)

lemma filter_three:
  "filter (\<lambda>r. \<not> check_where u ''Calling-Station-Id'' r)
     (filter (\<lambda>r. \<not> check_where u ''Expiration'' r)
        (filter (\<lambda>r. \<not> check_where u ''Auth-Type'' r) xs))
   = filter (\<lambda>r. \<not> managed u r) xs"
  by (induction xs) (auto simp: managed_def)

lemma refresh_normal_form:
  "filter (\<lambda>r. \<not> check_where u ''Calling-Station-Id'' r)
     (filter (\<lambda>r. \<not> check_where u ''Expiration'' r)
        (filter (\<lambda>r. \<not> check_where u ''Auth-Type'' r) xs)
      @ expiration_rows u subscriber)
   @ station_rows u subscriber
   = filter (\<lambda>r. \<not> managed u r) xs @ expiration_rows u subscriber @ station_rows u subscriber"
  by (simp only: filter_append filter_three station_keeps_expiration append_assoc)

lemma enable_radCheck:
  "radCheck (enableSubscriberRadius_tx tenant subscriber s) =
     filter (\<lambda>r. \<not> managed (buildRadiusUsername tenant (sub_username subscriber)) r) (radCheck s)
     @ expiration_rows (buildRadiusUsername tenant (sub_username subscriber)) subscriber
     @ station_rows (buildRadiusUsername tenant (sub_username subscriber)) subscriber"
  by (subst enable_tx_closed) (simp only: sel_upd refresh_normal_form)

lemma enable_radUserGroup:
  "radUserGroup (enableSubscriberRadius_tx tenant subscriber s) =
     radUserGroup s
     @ (if find (\<lambda>r. ug_username r = buildRadiusUsername tenant (sub_username subscriber))
             (radUserGroup s) = None
        then membership_rows tenant subscriber else [])"
  by (subst enable_tx_closed) (simp only: sel_upd)

lemma enable_frame:
  "radReply (enableSubscriberRadius_tx tenant subscriber s) = radReply s"
  "radGroupCheck (enableSubscriberRadius_tx tenant subscriber s) = radGroupCheck s"
  "radGroupReply (enableSubscriberRadius_tx tenant subscriber s) = radGroupReply s"
  "radAcct (enableSubscriberRadius_tx tenant subscriber s) = radAcct s"
  by (subst enable_tx_closed, simp)+

lemma unmanaged_after_auth:
  "filter (\<lambda>r. \<not> managed u r) (filter (\<lambda>r. \<not> check_where u ''Auth-Type'' r) xs)
     = filter (\<lambda>r. \<not> managed u r) xs"
  by (rule filter_filter_implied) (simp add: managed_def)

lemma unmanaged_reject:
  "filter (\<lambda>r. \<not> managed u r)
     [\<lparr>rc_username = u, rc_attribute = ''Auth-Type'', rc_op = '':='', rc_value = ''Reject''\<rparr>] = []"
  by (simp add: managed_def check_where_def)

lemma toggle_radCheck:
  "radCheck (enableSubscriberRadius_tx tenant subscriber
      (disableSubscriberRadius_tx tenant (sub_username subscriber)
         (enableSubscriberRadius_tx tenant subscriber s)))
   = radCheck (enableSubscriberRadius_tx tenant subscriber s)"
  by (simp only: enable_radCheck disable_radCheck filter_append unmanaged_after_auth
      filter_idem_same unmanaged_expiration unmanaged_station unmanaged_reject
      append_Nil append_Nil2)

lemma membership_rows_filtered:
  "filter (\<lambda>r. ug_username r \<noteq> buildRadiusUsername tenant (sub_username subscriber))
     (if c then membership_rows tenant subscriber else []) = []"
  by (simp add: membership_rows_def)

lemma toggle_radUserGroup:
  "radUserGroup (enableSubscriberRadius_tx tenant subscriber
      (disableSubscriberRadius_tx tenant (sub_username subscriber)
         (enableSubscriberRadius_tx tenant subscriber s)))
   = filter (\<lambda>r. ug_username r \<noteq> buildRadiusUsername tenant (sub_username subscriber))
       (radUserGroup s)
     @ membership_rows tenant subscriber"
  by (simp only: enable_radUserGroup disable_radUserGroup filter_append find_filter_neq
      membership_rows_filtered append_Nil2 if_True refl)

lemma toggle_tx_iff:
  "enableSubscriberRadius_tx tenant subscriber
      (disableSubscriberRadius_tx tenant (sub_username subscriber)
         (enableSubscriberRadius_tx tenant subscriber s))
   = enableSubscriberRadius_tx tenant subscriber s
   \<longleftrightarrow>
   filter (\<lambda>r. ug_username r \<noteq> buildRadiusUsername tenant (sub_username subscriber)) (radUserGroup s)
     @ membership_rows tenant subscriber
   = radUserGroup s
     @ (if find (\<lambda>r. ug_username r = buildRadiusUsername tenant (sub_username subscriber))
             (radUserGroup s) = None
        then membership_rows tenant subscriber else [])"
proof -
  have "enableSubscriberRadius_tx tenant subscriber
      (disableSubscriberRadius_tx tenant (sub_username subscriber)
         (enableSubscriberRadius_tx tenant subscriber s))
   = enableSubscriberRadius_tx tenant subscriber s
   \<longleftrightarrow>
   radUserGroup (enableSubscriberRadius_tx tenant subscriber
      (disableSubscriberRadius_tx tenant (sub_username subscriber)
         (enableSubscriberRadius_tx tenant subscriber s)))
   = radUserGroup (enableSubscriberRadius_tx tenant subscriber s)"
    by (simp only: store_eq_iff enable_frame disable_frame toggle_radCheck simp_thms)
  then show ?thesis
    by (simp only: toggle_radUserGroup) (simp only: enable_radUserGroup)
qed

lemma mset_eq_singleton: "mset xs = {#x#} \<longleftrightarrow> xs = [x]"
  by (cases xs) auto

lemma membership_same_rows:
  "mset (filter (\<lambda>r. ug_username r \<noteq> u) G @ m)
     = mset (G @ (if find (\<lambda>r. ug_username r = u) G = None then m else []))
   \<longleftrightarrow>
   filter (\<lambda>r. ug_username r = u) G = [] \<or> mset m = mset (filter (\<lambda>r. ug_username r = u) G)"
proof (cases "find (\<lambda>r. ug_username r = u) G = None")
  case True
  then have none: "\<forall>r\<in>set G. ug_username r \<noteq> u" by (auto simp: find_None_iff)
  then have "filter (\<lambda>r. ug_username r \<noteq> u) G = G" "filter (\<lambda>r. ug_username r = u) G = []"
    by (simp_all add: filter_empty_conv)
  with True show ?thesis by simp
next
  case False
  then have "\<exists>r\<in>set G. ug_username r = u" by (auto simp: find_None_iff)
  then have ne: "filter (\<lambda>r. ug_username r = u) G \<noteq> []" by (simp add: filter_empty_conv)
  define A where "A = mset (filter (\<lambda>r. ug_username r = u) G)"
  define B where "B = mset (filter (\<lambda>r. ug_username r \<noteq> u) G)"
  have part: "mset G = B + A"
    unfolding A_def B_def by (induction G) auto
  have "mset (filter (\<lambda>r. ug_username r \<noteq> u) G @ m) = B + mset m"
    by (simp add: B_def)
  then have "mset (filter (\<lambda>r. ug_username r \<noteq> u) G @ m) = mset G \<longleftrightarrow> B + mset m = B + A"
    by (simp only: part)
  also have "\<dots> \<longleftrightarrow> mset m = A"
    by (rule add_left_cancel)
  finally have "mset (filter (\<lambda>r. ug_username r \<noteq> u) G @ m) = mset G
          \<longleftrightarrow> mset m = mset (filter (\<lambda>r. ug_username r = u) G)"
    unfolding A_def .
  with ne have "mset (filter (\<lambda>r. ug_username r \<noteq> u) G @ m) = mset (G @ [])
          \<longleftrightarrow> filter (\<lambda>r. ug_username r = u) G = []
              \<or> mset m = mset (filter (\<lambda>r. ug_username r = u) G)"
    by (simp only: append_Nil2 simp_thms)
  with False show ?thesis by (simp only: if_False)
qed

lemma membership_rows_match:
  "mset (membership_rows tenant subscriber) = mset F \<and> F \<noteq> []
   \<longleftrightarrow> truthy_str (planId subscriber)
       \<and> F = [\<lparr>ug_username = buildRadiusUsername tenant (sub_username subscriber),
               ug_groupname = buildRadiusGroupname tenant (the (planId subscriber)),
               ug_priority = 1\<rparr>]"
  using mset_eq_singleton [of F] by (auto simp: membership_rows_def)

text \<open>
  C6, as the code has it. When enable, then disable, then enable have each completed,
  the check table, the reply table and the other tables are as a single enable leaves
  them. The membership table holds the same rows as after a single enable exactly
  when the starting table has no row for the namespaced username, or the subscriber
  has a plan and the username's rows in the starting table are the one row of the
  plan's group at priority 1. When the starting table has no row for the username,
  the two final states are equal.
\<close>

theorem toggle_same_rows:
  assumes e1: "enableSubscriberRadius f1 tenant subscriber s = Inr a"
      and d2: "disableSubscriberRadius f2 tenant (sub_username subscriber) a = Inr b"
      and e3: "enableSubscriberRadius f3 tenant subscriber b = Inr toggled"
      and e0: "enableSubscriberRadius f4 tenant subscriber s = Inr single"
      and u: "u = buildRadiusUsername tenant (sub_username subscriber)"
  shows "radCheck toggled = radCheck single
     \<and> radReply toggled = radReply single
     \<and> radGroupCheck toggled = radGroupCheck single
     \<and> radGroupReply toggled = radGroupReply single
     \<and> radAcct toggled = radAcct single
     \<and> (mset (radUserGroup toggled) = mset (radUserGroup single)
        \<longleftrightarrow> filter (\<lambda>r. ug_username r = u) (radUserGroup s) = []
            \<or> (truthy_str (planId subscriber)
               \<and> filter (\<lambda>r. ug_username r = u) (radUserGroup s)
                   = [\<lparr>ug_username = u,
                       ug_groupname = buildRadiusGroupname tenant (the (planId subscriber)),
                       ug_priority = 1\<rparr>]))
     \<and> (filter (\<lambda>r. ug_username r = u) (radUserGroup s) = [] \<longrightarrow> toggled = single)"
proof -
  let ?E = "enableSubscriberRadius_tx tenant subscriber"
  let ?D = "disableSubscriberRadius_tx tenant (sub_username subscriber)"
  let ?F = "filter (\<lambda>r. ug_username r = u) (radUserGroup s)"
  from e1 e0 have a: "a = ?E s" and single: "single = ?E s"
    by (simp_all add: enableSubscriberRadius_def transaction_Inr)
  from d2 have b: "b = ?D a"
    by (simp add: disableSubscriberRadius_def transaction_Inr)
  from e3 have "toggled = ?E b"
    by (simp add: enableSubscriberRadius_def transaction_Inr)
  with a b have toggled: "toggled = ?E (?D (?E s))" by simp
  have 1: "radCheck toggled = radCheck single"
    unfolding toggled single by (rule toggle_radCheck)
  have 2: "radReply toggled = radReply single"
    unfolding toggled single by (simp only: enable_frame disable_frame)
  have 3: "radGroupCheck toggled = radGroupCheck single"
    unfolding toggled single by (simp only: enable_frame disable_frame)
  have 4: "radGroupReply toggled = radGroupReply single"
    unfolding toggled single by (simp only: enable_frame disable_frame)
  have 5: "radAcct toggled = radAcct single"
    unfolding toggled single by (simp only: enable_frame disable_frame)
  have gt: "radUserGroup toggled
              = filter (\<lambda>r. ug_username r \<noteq> u) (radUserGroup s) @ membership_rows tenant subscriber"
    unfolding toggled u by (rule toggle_radUserGroup)
  have gs: "radUserGroup single
              = radUserGroup s
                @ (if find (\<lambda>r. ug_username r = u) (radUserGroup s) = None
                   then membership_rows tenant subscriber else [])"
    unfolding single u by (rule enable_radUserGroup)
  have "mset (radUserGroup toggled) = mset (radUserGroup single)
          \<longleftrightarrow> ?F = [] \<or> mset (membership_rows tenant subscriber) = mset ?F"
    unfolding gt gs by (rule membership_same_rows)
  also have "\<dots> \<longleftrightarrow> ?F = [] \<or> (mset (membership_rows tenant subscriber) = mset ?F \<and> ?F \<noteq> [])"
    by blast
  also have "\<dots> \<longleftrightarrow> ?F = []
            \<or> (truthy_str (planId subscriber)
               \<and> ?F = [\<lparr>ug_username = u,
                         ug_groupname = buildRadiusGroupname tenant (the (planId subscriber)),
                         ug_priority = 1\<rparr>])"
    unfolding u by (simp only: membership_rows_match)
  finally have 6: "mset (radUserGroup toggled) = mset (radUserGroup single)
        \<longleftrightarrow> ?F = []
            \<or> (truthy_str (planId subscriber)
               \<and> ?F = [\<lparr>ug_username = u,
                         ug_groupname = buildRadiusGroupname tenant (the (planId subscriber)),
                         ug_priority = 1\<rparr>])" .
  have 7: "?F = [] \<longrightarrow> toggled = single"
  proof
    assume none: "?F = []"
    then have "\<forall>r\<in>set (radUserGroup s). ug_username r \<noteq> u"
      by (simp add: filter_empty_conv)
    then have "filter (\<lambda>r. ug_username r \<noteq> u) (radUserGroup s) = radUserGroup s"
      and "find (\<lambda>r. ug_username r = u) (radUserGroup s) = None"
      by (simp_all add: find_None_iff)
    then have "radUserGroup toggled = radUserGroup single"
      unfolding gt gs by simp
    with 1 2 3 4 5 show "toggled = single"
      by (simp only: store_eq_iff simp_thms)
  qed
  from 1 2 3 4 5 6 7 show ?thesis by (intro conjI)
qed

theorem toggle_same_rows_witness:
  "enableSubscriberRadius None ''acme'' alice store_empty
     = Inr (enableSubscriberRadius_tx ''acme'' alice store_empty)
   \<and> disableSubscriberRadius None ''acme'' (sub_username alice)
       (enableSubscriberRadius_tx ''acme'' alice store_empty)
     = Inr (disableSubscriberRadius_tx ''acme'' (sub_username alice)
              (enableSubscriberRadius_tx ''acme'' alice store_empty))
   \<and> enableSubscriberRadius None ''acme'' alice
       (disableSubscriberRadius_tx ''acme'' (sub_username alice)
          (enableSubscriberRadius_tx ''acme'' alice store_empty))
     = Inr (enableSubscriberRadius_tx ''acme'' alice
              (disableSubscriberRadius_tx ''acme'' (sub_username alice)
                 (enableSubscriberRadius_tx ''acme'' alice store_empty)))
   \<and> filter (\<lambda>r. ug_username r = buildRadiusUsername ''acme'' (sub_username alice))
       (radUserGroup store_empty) = []
   \<and> enableSubscriberRadius_tx ''acme'' alice
       (disableSubscriberRadius_tx ''acme'' (sub_username alice)
          (enableSubscriberRadius_tx ''acme'' alice store_empty))
     = enableSubscriberRadius_tx ''acme'' alice store_empty"
proof -
  have e1: "enableSubscriberRadius None ''acme'' alice store_empty
     = Inr (enableSubscriberRadius_tx ''acme'' alice store_empty)"
    by (simp add: enableSubscriberRadius_def transaction_def)
  have d2: "disableSubscriberRadius None ''acme'' (sub_username alice)
       (enableSubscriberRadius_tx ''acme'' alice store_empty)
     = Inr (disableSubscriberRadius_tx ''acme'' (sub_username alice)
              (enableSubscriberRadius_tx ''acme'' alice store_empty))"
    by (simp add: disableSubscriberRadius_def transaction_def)
  have e3: "enableSubscriberRadius None ''acme'' alice
       (disableSubscriberRadius_tx ''acme'' (sub_username alice)
          (enableSubscriberRadius_tx ''acme'' alice store_empty))
     = Inr (enableSubscriberRadius_tx ''acme'' alice
              (disableSubscriberRadius_tx ''acme'' (sub_username alice)
                 (enableSubscriberRadius_tx ''acme'' alice store_empty)))"
    by (simp add: enableSubscriberRadius_def transaction_def)
  have none: "filter (\<lambda>r. ug_username r = buildRadiusUsername ''acme'' (sub_username alice))
       (radUserGroup store_empty) = []"
    by (simp add: store_empty_def)
  note t = toggle_same_rows [OF e1 d2 e3 e1 refl]
  from t have "filter (\<lambda>r. ug_username r = buildRadiusUsername ''acme'' (sub_username alice))
       (radUserGroup store_empty) = [] \<longrightarrow>
     enableSubscriberRadius_tx ''acme'' alice
       (disableSubscriberRadius_tx ''acme'' (sub_username alice)
          (enableSubscriberRadius_tx ''acme'' alice store_empty))
     = enableSubscriberRadius_tx ''acme'' alice store_empty"
    by (rule conjunct2 [OF conjunct2 [OF conjunct2 [OF conjunct2 [OF conjunct2
          [OF conjunct2]]]]])
  with none have "enableSubscriberRadius_tx ''acme'' alice
       (disableSubscriberRadius_tx ''acme'' (sub_username alice)
          (enableSubscriberRadius_tx ''acme'' alice store_empty))
     = enableSubscriberRadius_tx ''acme'' alice store_empty"
    by (rule rev_mp)
  with none e1 d2 e3 show ?thesis by (intro conjI)
qed

text \<open>
  The claim C6 as stated, from any starting state, fails when the membership table
  holds a row of the username for another group: a single enable keeps that row, the
  toggle replaces it by the row of the subscriber's plan.
\<close>

theorem toggle_converges_counterexample:
  "and_then
     (and_then (enableSubscriberRadius None ''acme'' alice store_stale_membership)
        (disableSubscriberRadius None ''acme'' ''alice''))
     (enableSubscriberRadius None ''acme'' alice)
   \<noteq> enableSubscriberRadius None ''acme'' alice store_stale_membership"
proof -
  have u: "sub_username alice = ''alice''" by (simp add: alice_def)
  have "filter (\<lambda>r. ug_username r \<noteq> buildRadiusUsername ''acme'' (sub_username alice))
          (radUserGroup store_stale_membership) @ membership_rows ''acme'' alice
        \<noteq> radUserGroup store_stale_membership
          @ (if find (\<lambda>r. ug_username r = buildRadiusUsername ''acme'' (sub_username alice))
                  (radUserGroup store_stale_membership) = None
             then membership_rows ''acme'' alice else [])"
    by (simp add: alice_def store_stale_membership_def store_empty_def membership_rows_def
        buildRadiusUsername_def buildRadiusGroupname_def)
  with toggle_tx_iff [of "''acme''" alice store_stale_membership]
  show ?thesis
    by (simp only: u enableSubscriberRadius_def disableSubscriberRadius_def transaction_def
        option.case and_then.simps sum.inject simp_thms)
qed

section \<open>Stale-session sweep\<close>

lemma like_percent: "like s ''%''"
  by (induction s) simp_all

lemma like_any_one: "like s ''_%'' \<longleftrightarrow> s \<noteq> []"
  by (cases s) (simp_all add: like_percent)

lemma like_plain_char:
  "p \<noteq> CHR ''%'' \<Longrightarrow> p \<noteq> CHR ''_'' \<Longrightarrow> p \<noteq> CHR 0x5C \<Longrightarrow>
     like s (p # ps) \<longleftrightarrow> (\<exists>cs. s = p # cs \<and> like cs ps)"
  by (cases s) auto

lemma like_plain_prefix:
  "\<forall>c\<in>set t. c \<noteq> CHR ''%'' \<and> c \<noteq> CHR ''_'' \<and> c \<noteq> CHR 0x5C \<Longrightarrow>
     like s (t @ q) \<longleftrightarrow> take (length t) s = t \<and> like (drop (length t) s) q"
proof (induction t arbitrary: s)
  case Nil
  show ?case by simp
next
  case (Cons p t)
  then have p: "p \<noteq> CHR ''%''" "p \<noteq> CHR ''_''" "p \<noteq> CHR 0x5C"
    and t: "\<forall>c\<in>set t. c \<noteq> CHR ''%'' \<and> c \<noteq> CHR ''_'' \<and> c \<noteq> CHR 0x5C"
    by simp_all
  show ?case
  proof (cases s)
    case Nil
    then show ?thesis using p by simp
  next
    case (Cons c cs)
    then show ?thesis using p Cons.IH [OF t, of cs] by auto
  qed
qed

lemma startsWith_plain:
  assumes "\<forall>c\<in>set t. c \<noteq> CHR ''%'' \<and> c \<noteq> CHR ''_'' \<and> c \<noteq> CHR 0x5C"
  shows "startsWith (t @ ''_'') s \<longleftrightarrow> take (length t) s = t \<and> length t < length s"
proof -
  have "startsWith (t @ ''_'') s \<longleftrightarrow> like s (t @ ''_%'')"
    by (simp add: startsWith_def)
  also have "\<dots> \<longleftrightarrow> take (length t) s = t \<and> like (drop (length t) s) ''_%''"
    by (rule like_plain_prefix [OF assms])
  also have "\<dots> \<longleftrightarrow> take (length t) s = t \<and> length t < length s"
    by (simp only: like_any_one) auto
  finally show ?thesis .
qed

lemma lt_iff: "lt x threshold \<longleftrightarrow> (\<exists>t. x = Some t \<and> t < threshold)"
  by (cases x) simp_all

lemma stale_where_iff:
  "stale_where tenantSlug threshold r \<longleftrightarrow>
     (acctstoptime r = None
      \<and> ((\<exists>t. acctupdatetime r = Some t \<and> t < threshold)
         \<or> (acctupdatetime r = None \<and> (\<exists>t. acctstarttime r = Some t \<and> t < threshold))))
     \<and> (case tenantSlug of
          None \<Rightarrow> True
        | Some tenant \<Rightarrow> tenant = [] \<or> startsWith (tenant @ ''_'') (acct_username r))"
  by (cases tenantSlug) (auto simp: stale_where_def lt_iff)

lemma cleanup_Inr:
  "cleanupStaleSessions fault now stop tenantSlug minutes s = Inr (n, s') \<longleftrightarrow>
     fault = None
     \<and> n = length (filter (stale_where tenantSlug
                (now - (case minutes of None \<Rightarrow> 15 | Some m \<Rightarrow> m) * 60 * 1000)) (radAcct s))
     \<and> s' = s\<lparr>radAcct :=
               map (\<lambda>r. if stale_where tenantSlug
                            (now - (case minutes of None \<Rightarrow> 15 | Some m \<Rightarrow> m) * 60 * 1000) r
                         then r\<lparr>acctstoptime := Some stop, acctterminatecause := ''Stale-Session''\<rparr>
                         else r) (radAcct s)\<rparr>"
  by (cases fault) (auto simp: cleanupStaleSessions_def updateMany_def Let_def)

lemma cleanup_rows:
  assumes "cleanupStaleSessions fault now stop tenantSlug minutes s = Inr (n, s')"
      and "threshold = now - (case minutes of None \<Rightarrow> 15 | Some m \<Rightarrow> m) * 60 * 1000"
  shows "radAcct s' =
           map (\<lambda>r. if stale_where tenantSlug threshold r
                     then r\<lparr>acctstoptime := Some stop, acctterminatecause := ''Stale-Session''\<rparr>
                     else r) (radAcct s)"
    and "n = length (filter (stale_where tenantSlug threshold) (radAcct s))"
    and "s' = s\<lparr>radAcct := radAcct s'\<rparr>"
  using assms by (simp_all add: cleanup_Inr)

lemma cleanup_example_closed:
  "cleanupStaleSessions None now stop None None
     (s\<lparr>radAcct := [r\<lparr>acctstoptime := None, acctupdatetime := None,
                       acctstarttime := Some (now - 20 * 60 * 1000)\<rparr>]\<rparr>)
   = Inr (1, s\<lparr>radAcct := [r\<lparr>acctstoptime := Some stop, acctupdatetime := None,
                       acctstarttime := Some (now - 20 * 60 * 1000),
                       acctterminatecause := ''Stale-Session''\<rparr>]\<rparr>)"
  by (simp add: cleanupStaleSessions_def updateMany_def stale_where_def)

lemma cleanup_example_open:
  "cleanupStaleSessions None now stop None None
     (s\<lparr>radAcct := [r\<lparr>acctstoptime := None, acctupdatetime := None,
                       acctstarttime := Some (now - 10 * 60 * 1000)\<rparr>]\<rparr>)
   = Inr (0, s\<lparr>radAcct := [r\<lparr>acctstoptime := None, acctupdatetime := None,
                       acctstarttime := Some (now - 10 * 60 * 1000)\<rparr>]\<rparr>)"
  by (simp add: cleanupStaleSessions_def updateMany_def stale_where_def)

lemma closed_differs:
  "acctstoptime r = None \<Longrightarrow>
     r\<lparr>acctstoptime := Some stop, acctterminatecause := ''Stale-Session''\<rparr> \<noteq> r"
proof
  assume a: "acctstoptime r = None"
    and e: "r\<lparr>acctstoptime := Some stop, acctterminatecause := ''Stale-Session''\<rparr> = r"
  from e have "acctstoptime (r\<lparr>acctstoptime := Some stop, acctterminatecause := ''Stale-Session''\<rparr>)
                 = acctstoptime r" by simp
  with a show False by simp
qed

lemma count_changed:
  assumes "\<And>r. P r \<Longrightarrow> f r \<noteq> r"
  shows "length (filter P xs)
           = card {i. i < length xs \<and> map (\<lambda>r. if P r then f r else r) xs ! i \<noteq> xs ! i}"
proof -
  have "{i. i < length xs \<and> map (\<lambda>r. if P r then f r else r) xs ! i \<noteq> xs ! i}
          = {i. i < length xs \<and> P (xs ! i)}"
    using assms by (auto split: if_splits)
  then show ?thesis by (simp add: length_filter_conv_card)
qed

text \<open>
  C7, as the code has it. A completed sweep keeps the number and order of the
  accounting records and the other tables, and returns the number of records it
  changed. A record is either left as it was or closed, with the stop time read at
  the update and the termination cause \<open>Stale-Session\<close>, and only a record with a null
  stop time and a last update before the threshold, or else no last update and a
  start before the threshold, is closed. Without a tenant slug, or with an empty one,
  exactly these records are closed. With a tenant slug that has no \<open>%\<close>, \<open>_\<close> or
  backslash, every such record whose username starts with the slug and an underscore
  is closed, and every record whose username does not start with the slug is left as
  it was. The threshold is the time read at the start less the given minutes, 15 by
  default: with no tenant, a table of one open record with no last update is closed
  when the record started 20 minutes before the sweep and left open when it started
  10 minutes before.
\<close>

theorem cleanupStaleSessions_closes:
  assumes run: "cleanupStaleSessions fault now stop tenantSlug minutes s = Inr (n, s')"
      and threshold: "threshold = now - (case minutes of None \<Rightarrow> 15 | Some m \<Rightarrow> m) * 60 * 1000"
      and stale: "stale = (\<lambda>r. acctstoptime r = None
                    \<and> ((\<exists>t. acctupdatetime r = Some t \<and> t < threshold)
                       \<or> (acctupdatetime r = None
                          \<and> (\<exists>t. acctstarttime r = Some t \<and> t < threshold))))"
      and close: "close = (\<lambda>r. r\<lparr>acctstoptime := Some stop,
                                  acctterminatecause := ''Stale-Session''\<rparr>)"
  shows "length (radAcct s') = length (radAcct s)
     \<and> s' = s\<lparr>radAcct := radAcct s'\<rparr>
     \<and> n = card {i. i < length (radAcct s) \<and> radAcct s' ! i \<noteq> radAcct s ! i}
     \<and> (\<forall>i < length (radAcct s).
          radAcct s' ! i = radAcct s ! i
          \<or> (stale (radAcct s ! i) \<and> radAcct s' ! i = close (radAcct s ! i)))
     \<and> (tenantSlug = None \<or> tenantSlug = Some [] \<longrightarrow>
          (\<forall>i < length (radAcct s).
             radAcct s' ! i
               = (if stale (radAcct s ! i) then close (radAcct s ! i) else radAcct s ! i)))
     \<and> (\<forall>tenant. tenantSlug = Some tenant \<and> tenant \<noteq> []
            \<and> (\<forall>c\<in>set tenant. c \<noteq> CHR ''%'' \<and> c \<noteq> CHR ''_'' \<and> c \<noteq> CHR 0x5C) \<longrightarrow>
          (\<forall>i < length (radAcct s).
             (stale (radAcct s ! i)
                \<and> take (length tenant + 1) (acct_username (radAcct s ! i)) = tenant @ ''_''
              \<longrightarrow> radAcct s' ! i = close (radAcct s ! i))
             \<and> (take (length tenant) (acct_username (radAcct s ! i)) \<noteq> tenant
              \<longrightarrow> radAcct s' ! i = radAcct s ! i)))
     \<and> (\<forall>s0 r0.
          cleanupStaleSessions None now stop None None
            (s0\<lparr>radAcct := [r0\<lparr>acctstoptime := None, acctupdatetime := None,
                                acctstarttime := Some (now - 20 * 60 * 1000)\<rparr>]\<rparr>)
          = Inr (1, s0\<lparr>radAcct := [r0\<lparr>acctstoptime := Some stop, acctupdatetime := None,
                                acctstarttime := Some (now - 20 * 60 * 1000),
                                acctterminatecause := ''Stale-Session''\<rparr>]\<rparr>)
          \<and> cleanupStaleSessions None now stop None None
            (s0\<lparr>radAcct := [r0\<lparr>acctstoptime := None, acctupdatetime := None,
                                acctstarttime := Some (now - 10 * 60 * 1000)\<rparr>]\<rparr>)
          = Inr (0, s0\<lparr>radAcct := [r0\<lparr>acctstoptime := None, acctupdatetime := None,
                                acctstarttime := Some (now - 10 * 60 * 1000)\<rparr>]\<rparr>))"
proof -
  let ?scope = "\<lambda>r. case tenantSlug of
                       None \<Rightarrow> True
                     | Some tenant \<Rightarrow> tenant = [] \<or> startsWith (tenant @ ''_'') (acct_username r)"
  have sel: "\<And>r. stale_where tenantSlug threshold r \<longleftrightarrow> stale r \<and> ?scope r"
    unfolding stale by (rule stale_where_iff)
  have rows: "radAcct s' = map (\<lambda>r. if stale_where tenantSlug threshold r then close r else r)
                             (radAcct s)"
    unfolding close by (rule cleanup_rows(1) [OF run threshold])
  have row: "radAcct s' ! i
               = (if stale (radAcct s ! i) \<and> ?scope (radAcct s ! i)
                  then close (radAcct s ! i) else radAcct s ! i)"
    if "i < length (radAcct s)" for i
    using that by (simp only: rows nth_map sel)
  have 1: "length (radAcct s') = length (radAcct s)"
    by (simp add: rows)
  have 2: "s' = s\<lparr>radAcct := radAcct s'\<rparr>"
    by (rule cleanup_rows(3) [OF run threshold])
  have differs: "close r \<noteq> r" if "stale_where tenantSlug threshold r" for r
    using that closed_differs [of r stop] by (simp add: close stale_where_def)
  have 3: "n = card {i. i < length (radAcct s) \<and> radAcct s' ! i \<noteq> radAcct s ! i}"
    unfolding rows cleanup_rows(2) [OF run threshold]
    by (rule count_changed) (rule differs)
  have 4: "\<forall>i < length (radAcct s).
          radAcct s' ! i = radAcct s ! i
          \<or> (stale (radAcct s ! i) \<and> radAcct s' ! i = close (radAcct s ! i))"
    using row by simp
  have 5: "tenantSlug = None \<or> tenantSlug = Some [] \<longrightarrow>
          (\<forall>i < length (radAcct s).
             radAcct s' ! i
               = (if stale (radAcct s ! i) then close (radAcct s ! i) else radAcct s ! i))"
    using row by auto
  have 6: "\<forall>tenant. tenantSlug = Some tenant \<and> tenant \<noteq> []
            \<and> (\<forall>c\<in>set tenant. c \<noteq> CHR ''%'' \<and> c \<noteq> CHR ''_'' \<and> c \<noteq> CHR 0x5C) \<longrightarrow>
          (\<forall>i < length (radAcct s).
             (stale (radAcct s ! i)
                \<and> take (length tenant + 1) (acct_username (radAcct s ! i)) = tenant @ ''_''
              \<longrightarrow> radAcct s' ! i = close (radAcct s ! i))
             \<and> (take (length tenant) (acct_username (radAcct s ! i)) \<noteq> tenant
              \<longrightarrow> radAcct s' ! i = radAcct s ! i))"
  proof (intro allI impI, elim conjE)
    fix tenant i
    assume t: "tenantSlug = Some tenant" "tenant \<noteq> []"
      and plain: "\<forall>c\<in>set tenant. c \<noteq> CHR ''%'' \<and> c \<noteq> CHR ''_'' \<and> c \<noteq> CHR 0x5C"
      and i: "i < length (radAcct s)"
    let ?r = "radAcct s ! i"
    have scope: "?scope ?r \<longleftrightarrow> take (length tenant) (acct_username ?r) = tenant
                   \<and> length tenant < length (acct_username ?r)"
      using t by (simp add: startsWith_plain [OF plain])
    have pre: "take (length tenant) (acct_username ?r) = tenant
                 \<and> length tenant < length (acct_username ?r)"
      if "take (length tenant + 1) (acct_username ?r) = tenant @ ''_''"
    proof -
      from that have len: "length (take (length tenant + 1) (acct_username ?r)) = length tenant + 1"
        by simp
      then have l: "length tenant < length (acct_username ?r)" by simp
      from that have "take (length tenant) (take (length tenant + 1) (acct_username ?r))
                        = take (length tenant) (tenant @ ''_'')" by simp
      then have "take (length tenant) (acct_username ?r) = tenant" by simp
      with l show ?thesis by simp
    qed
    show "(stale ?r \<and> take (length tenant + 1) (acct_username ?r) = tenant @ ''_''
              \<longrightarrow> radAcct s' ! i = close ?r)
             \<and> (take (length tenant) (acct_username ?r) \<noteq> tenant \<longrightarrow> radAcct s' ! i = ?r)"
      using row [OF i] scope pre by auto
  qed
  have 7: "\<forall>s0 r0.
          cleanupStaleSessions None now stop None None
            (s0\<lparr>radAcct := [r0\<lparr>acctstoptime := None, acctupdatetime := None,
                                acctstarttime := Some (now - 20 * 60 * 1000)\<rparr>]\<rparr>)
          = Inr (1, s0\<lparr>radAcct := [r0\<lparr>acctstoptime := Some stop, acctupdatetime := None,
                                acctstarttime := Some (now - 20 * 60 * 1000),
                                acctterminatecause := ''Stale-Session''\<rparr>]\<rparr>)
          \<and> cleanupStaleSessions None now stop None None
            (s0\<lparr>radAcct := [r0\<lparr>acctstoptime := None, acctupdatetime := None,
                                acctstarttime := Some (now - 10 * 60 * 1000)\<rparr>]\<rparr>)
          = Inr (0, s0\<lparr>radAcct := [r0\<lparr>acctstoptime := None, acctupdatetime := None,
                                acctstarttime := Some (now - 10 * 60 * 1000)\<rparr>]\<rparr>)"
    by (intro allI conjI) (rule cleanup_example_closed, rule cleanup_example_open)
  from 1 2 3 4 5 6 7 show ?thesis by (intro conjI)
qed

theorem cleanupStaleSessions_closes_witness:
  "cleanupStaleSessions None 5000000 5000001 (Some ''acme'') None
       (store_acct [session_20, session_10, session_other_tenant])
     = Inr (1, store_acct [session_20\<lparr>acctstoptime := Some 5000001,
                                      acctterminatecause := ''Stale-Session''\<rparr>,
                           session_10, session_other_tenant])
   \<and> length (radAcct (store_acct [session_20\<lparr>acctstoptime := Some 5000001,
                                      acctterminatecause := ''Stale-Session''\<rparr>,
                           session_10, session_other_tenant])) = 3
   \<and> CHR ''%'' \<notin> set ''acme'' \<and> CHR ''_'' \<notin> set ''acme'' \<and> CHR 0x5C \<notin> set ''acme''
   \<and> take (length ''acme'' + 1) (acct_username session_20) = ''acme_''"
proof -
  have h: "cleanupStaleSessions None 5000000 5000001 (Some ''acme'') None
       (store_acct [session_20, session_10, session_other_tenant])
     = Inr (1, store_acct [session_20\<lparr>acctstoptime := Some 5000001,
                                      acctterminatecause := ''Stale-Session''\<rparr>,
                           session_10, session_other_tenant])"
    by (simp add: cleanupStaleSessions_def updateMany_def stale_where_def startsWith_def
        store_acct_def store_empty_def session_20_def session_10_def session_other_tenant_def)
  have "length (radAcct (store_acct [session_20\<lparr>acctstoptime := Some 5000001,
                                      acctterminatecause := ''Stale-Session''\<rparr>,
                           session_10, session_other_tenant]))
        = length (radAcct (store_acct [session_20, session_10, session_other_tenant]))"
    using cleanupStaleSessions_closes [OF h refl refl refl] by (rule conjunct1)
  then have "length (radAcct (store_acct [session_20\<lparr>acctstoptime := Some 5000001,
                                      acctterminatecause := ''Stale-Session''\<rparr>,
                           session_10, session_other_tenant])) = 3"
    by (simp add: store_acct_def)
  moreover have "CHR ''%'' \<notin> set ''acme''" "CHR ''_'' \<notin> set ''acme''" "CHR 0x5C \<notin> set ''acme''"
    by simp_all
  moreover have "take (length ''acme'' + 1) (acct_username session_20) = ''acme_''"
    by (simp add: session_20_def)
  ultimately show ?thesis using h by (intro conjI)
qed

text \<open>
  The claim C7 as stated, without the tenant scope, fails when a tenant slug is given:
  an open record of another tenant whose last update is older than the threshold is
  left open.
\<close>

theorem cleanupStaleSessions_tenant_counterexample:
  "acctstoptime session_other_tenant = None
   \<and> lt (acctupdatetime session_other_tenant) (5000000 - 15 * 60 * 1000)
   \<and> cleanupStaleSessions None 5000000 5000001 (Some ''acme'') None
        (store_acct [session_other_tenant])
      = Inr (0, store_acct [session_other_tenant])"
  by (simp add: cleanupStaleSessions_def updateMany_def stale_where_def startsWith_def
      store_acct_def session_other_tenant_def)

section \<open>Expiration attribute\<close>

lemma String_dates: "String 5 = ''5''" "String 15 = ''15''" "String 2025 = ''2025''"
  by code_simp+

text \<open>
  C8. The format documented in the source is \<open>Mon DD YYYY HH:MM:SS\<close>, with a day of two
  characters. On 5 January 2025 the code writes the day as the single character \<open>5\<close>:
  the value has 19 characters, one fewer than the 20 of 15 January 2025, so the
  values are not of a fixed width.
\<close>

theorem formatRadiusExpiration_unpadded_day:
  "formatRadiusExpiration jan5 = ''Jan 5 2025 23:59:59''
   \<and> formatRadiusExpiration jan15 = ''Jan 15 2025 23:59:59''
   \<and> length (formatRadiusExpiration jan5) = 19
   \<and> length (formatRadiusExpiration jan15) = 20"
  by (simp add: formatRadiusExpiration_def months_def jan5_def jan15_def String_dates)

end
